theory Spec2Isabelle
  imports Main
begin

section \<open>Strings\<close>

text \<open>
  A Go \<^verbatim>\<open>string\<close> is a sequence of bytes and \<^verbatim>\<open>len\<close>, indexing and \<^verbatim>\<open>==\<close> work on
  bytes; it is modelled as a \<^typ>\<open>string\<close> (a list of 8-bit characters). The helpers of
  package \<^verbatim>\<open>strings\<close> used by the code are modelled for ASCII strings: case mapping
  touches the letters \<^verbatim>\<open>a-z\<close>/\<^verbatim>\<open>A-Z\<close> only and white space is the six ASCII white-space
  bytes. This is what the Go functions do on ASCII text (CQL keywords and the fixed tables
  of the program are ASCII). On other strings the Go functions work on runes: they map
  the case of Unicode letters, take Unicode white space for white space and replace
  invalid UTF-8 by U+FFFD, none of which is modelled. So \<^verbatim>\<open>ToUpper\<close>, \<^verbatim>\<open>ToLower\<close>,
  \<^verbatim>\<open>TrimSpace\<close> and \<^verbatim>\<open>Fields\<close> below stand for the Go functions on ASCII arguments only.
\<close>

definition upper_char :: "char \<Rightarrow> char" where
  "upper_char c =
     (case map_of (zip ''abcdefghijklmnopqrstuvwxyz'' ''ABCDEFGHIJKLMNOPQRSTUVWXYZ'') c of
        Some u \<Rightarrow> u | None \<Rightarrow> c)"

definition lower_char :: "char \<Rightarrow> char" where
  "lower_char c =
     (case map_of (zip ''ABCDEFGHIJKLMNOPQRSTUVWXYZ'' ''abcdefghijklmnopqrstuvwxyz'') c of
        Some l \<Rightarrow> l | None \<Rightarrow> c)"

definition ToUpper :: "string \<Rightarrow> string" where
  "ToUpper s = map upper_char s"

definition ToLower :: "string \<Rightarrow> string" where
  "ToLower s = map lower_char s"

definition is_space :: "char \<Rightarrow> bool" where
  "is_space c = (c \<in> set [CHR 0x09, CHR 0x0A, CHR 0x0B, CHR 0x0C, CHR 0x0D, CHR '' ''])"

definition TrimSpace :: "string \<Rightarrow> string" where
  "TrimSpace s = rev (dropWhile is_space (rev (dropWhile is_space s)))"

definition TrimRight :: "string \<Rightarrow> string \<Rightarrow> string" where
  "TrimRight s cutset = rev (dropWhile (\<lambda>c. c \<in> set cutset) (rev s))"

definition TrimLeft :: "string \<Rightarrow> string \<Rightarrow> string" where
  "TrimLeft s cutset = dropWhile (\<lambda>c. c \<in> set cutset) s"

text \<open>\<^verbatim>\<open>strings.Fields\<close>: the maximal runs of non-space bytes, in order.\<close>

fun fields_acc :: "string \<Rightarrow> string \<Rightarrow> string list" where
  "fields_acc w [] = (if w = [] then [] else [rev w])"
| "fields_acc w (c # cs) =
     (if is_space c then (if w = [] then fields_acc [] cs else rev w # fields_acc [] cs)
      else fields_acc (c # w) cs)"

definition Fields :: "string \<Rightarrow> string list" where
  "Fields s = fields_acc [] s"

text \<open>\<^verbatim>\<open>strings.Join\<close>.\<close>

fun Join :: "string list \<Rightarrow> string \<Rightarrow> string" where
  "Join [] sep = []"
| "Join [x] sep = x"
| "Join (x # y # ys) sep = x @ sep @ Join (y # ys) sep"


section \<open>Package parse: edit distance and keyword suggestion\<close>

subsection \<open>levenshteinDistance\<close>

text \<open>
  \<^verbatim>\<open>min(a, b, c)\<close> of \<^verbatim>\<open>levenshtein.go\<close>, with its comparisons in the order of the source.
  Distances and lengths are far below the range of Go's 64-bit \<^verbatim>\<open>int\<close> and never
  negative, so they are natural numbers here.
\<close>

fun min3 :: "nat \<Rightarrow> nat \<Rightarrow> nat \<Rightarrow> nat" where
  "min3 a b c = (if a < b then (if a < c then a else c) else if b < c then b else c)"

text \<open>
  The inner loop \<^verbatim>\<open>for j := 1; j <= len(s2); j++\<close> writes \<^verbatim>\<open>curr[j]\<close> from \<^verbatim>\<open>prev[j]\<close>,
  \<^verbatim>\<open>curr[j-1]\<close> and \<^verbatim>\<open>prev[j-1]\<close>; \<open>c\<close> is the byte \<^verbatim>\<open>s1[i-1]\<close> of the current outer
  iteration. The two rows are lists updated by index, as the slices are.
\<close>

function inner_loop :: "char \<Rightarrow> string \<Rightarrow> nat list \<Rightarrow> nat list \<Rightarrow> nat \<Rightarrow> nat list" where
  "inner_loop c s2 prv cur j =
     (if j \<le> length s2 then
        (let cost = (if c = s2 ! (j - 1) then 0 else 1) in
         inner_loop c s2 prv
           (cur[j := min3 (prv ! j + 1) (cur ! (j - 1) + 1) (prv ! (j - 1) + cost)])
           (j + 1))
      else cur)"
  by pat_completeness auto
termination
  by (relation "measure (\<lambda>(c, s2, prv, cur, j). Suc (length s2) - j)") auto

declare inner_loop.simps [simp del]

text \<open>
  The outer loop \<^verbatim>\<open>for i := 1; i <= len(s1); i++\<close> sets \<^verbatim>\<open>curr[0] = i\<close>, runs the inner
  loop and swaps the rows (\<^verbatim>\<open>prev, curr = curr, prev\<close>). It returns the row \<^verbatim>\<open>prev\<close>.
\<close>

function outer_loop :: "string \<Rightarrow> string \<Rightarrow> nat list \<Rightarrow> nat list \<Rightarrow> nat \<Rightarrow> nat list" where
  "outer_loop s1 s2 prv cur i =
     (if i \<le> length s1 then
        outer_loop s1 s2 (inner_loop (s1 ! (i - 1)) s2 prv (cur[0 := i]) 1) prv (i + 1)
      else prv)"
  by pat_completeness auto
termination
  by (relation "measure (\<lambda>(s1, s2, prv, cur, i). Suc (length s1) - i)") auto

declare outer_loop.simps [simp del]

definition levenshteinDistance :: "string \<Rightarrow> string \<Rightarrow> nat" where
  "levenshteinDistance s1 s2 =
     (if s1 = s2 then 0
      else if length s1 = 0 then length s2
      else if length s2 = 0 then length s1
      else outer_loop s1 s2 [0 ..< length s2 + 1] (replicate (length s2 + 1) 0) 1 ! length s2)"


subsection \<open>SuggestKeyword\<close>

definition cqlKeywords :: "string list" where
  "cqlKeywords =
    [''SELECT'', ''FROM'', ''WHERE'', ''AND'', ''OR'', ''IN'', ''INSERT'', ''INTO'', ''VALUES'',
     ''UPDATE'', ''SET'', ''DELETE'', ''USING'', ''TTL'', ''TIMESTAMP'', ''IF'', ''EXISTS'',
     ''NOT'', ''NULL'', ''LIMIT'', ''ORDER'', ''BY'', ''ASC'', ''DESC'', ''ALLOW'', ''FILTERING'',
     ''TOKEN'', ''CONTAINS'', ''KEY'',
     ''CREATE'', ''ALTER'', ''DROP'', ''TRUNCATE'', ''TABLE'', ''KEYSPACE'', ''INDEX'', ''TYPE'',
     ''MATERIALIZED'', ''VIEW'', ''FUNCTION'', ''AGGREGATE'', ''TRIGGER'', ''PRIMARY'',
     ''CLUSTERING'', ''COMPACT'', ''STORAGE'', ''WITH'', ''OPTIONS'', ''REPLICATION'',
     ''DURABLE'', ''WRITES'', ''COMMENT'', ''STATIC'', ''FROZEN'', ''COUNTER'',
     ''GRANT'', ''REVOKE'', ''ROLE'', ''USER'', ''PASSWORD'', ''SUPERUSER'', ''NOSUPERUSER'',
     ''LOGIN'', ''NOLOGIN'', ''PERMISSION'', ''PERMISSIONS'', ''ALL'', ''ON'', ''TO'',
     ''ASCII'', ''BIGINT'', ''BLOB'', ''BOOLEAN'', ''DATE'', ''DECIMAL'', ''DOUBLE'', ''FLOAT'',
     ''INET'', ''INT'', ''SMALLINT'', ''TEXT'', ''TIME'', ''TIMEUUID'', ''TINYINT'', ''UUID'',
     ''VARCHAR'', ''VARINT'', ''LIST'', ''MAP'', ''SET'', ''TUPLE'',
     ''USE'', ''BATCH'', ''BEGIN'', ''APPLY'', ''UNLOGGED'', ''LOGGED'', ''AS'', ''DISTINCT'',
     ''COUNT'', ''JSON'', ''CAST'']"

definition maxDistance :: nat where
  "maxDistance = 2"

text \<open>The first loop of \<^verbatim>\<open>SuggestKeyword\<close>: is the input one of the keywords?\<close>

fun exact_match :: "string \<Rightarrow> string list \<Rightarrow> bool" where
  "exact_match input [] = False"
| "exact_match input (kw # kws) = (if input = kw then True else exact_match input kws)"

text \<open>
  The second loop, over the keyword table, carrying \<^verbatim>\<open>bestMatch\<close> and \<^verbatim>\<open>bestDistance\<close>.
  \<^verbatim>\<open>lenDiff\<close> is a signed difference in the source and is an \<^typ>\<open>int\<close> here.
\<close>

fun closest_loop :: "string \<Rightarrow> string list \<Rightarrow> string \<times> nat \<Rightarrow> string \<times> nat" where
  "closest_loop input [] best = best"
| "closest_loop input (kw # kws) (bestMatch, bestDistance) =
     (if length kw \<le> 2 then closest_loop input kws (bestMatch, bestDistance)
      else
        (let lenDiff = int (length kw) - int (length input);
             lenDiff = (if lenDiff < 0 then - lenDiff else lenDiff)
         in if lenDiff > int maxDistance then closest_loop input kws (bestMatch, bestDistance)
            else
              (let dist = levenshteinDistance input kw
               in if dist \<le> maxDistance \<and> dist < bestDistance
                  then closest_loop input kws (kw, dist)
                  else closest_loop input kws (bestMatch, bestDistance))))"

definition SuggestKeyword :: "string \<Rightarrow> string" where
  "SuggestKeyword input0 =
     (let input = ToUpper (TrimSpace input0) in
      if input = [] then []
      else if length input < 4 then []
      else if exact_match input cqlKeywords then []
      else
        (let bestMatch = fst (closest_loop input cqlKeywords ([], maxDistance + 1))
         in if bestMatch \<noteq> [] then bestMatch else []))"


subsection \<open>The regular expressions of the error patterns\<close>

text \<open>
  The error patterns are Go regular expressions. The fragment they use is modelled by a
  small backtracking matcher with Go's leftmost-first preference: literals (plain or
  under \<^verbatim>\<open>(?i)\<close>), a character class, a greedy \<^verbatim>\<open>+\<close> over a class, sequence, alternation,
  one level of capture groups and the word boundary \<^verbatim>\<open>\b\<close>. The matcher state is the byte
  before the current position, the rest of the text and the groups closed so far. It
  works on bytes and folds the case of ASCII letters, which is what Go's matcher does on
  an ASCII text; on other texts Go matches runes and folds Unicode case.
\<close>

datatype rx =
    Eps
  | Chr char
  | ChrI char
  | Cls "char \<Rightarrow> bool"
  | Plus1 "char \<Rightarrow> bool"
  | Seq rx rx
  | Alt rx rx
  | Grp rx
  | WordB

definition is_word :: "char \<Rightarrow> bool" where
  "is_word c = (c \<in> set ''0123456789ABCDEFGHIJKLMNOPQRSTUVWXYZ_abcdefghijklmnopqrstuvwxyz'')"

definition word_before :: "char option \<Rightarrow> bool" where
  "word_before p = (case p of None \<Rightarrow> False | Some c \<Rightarrow> is_word c)"

definition word_after :: "string \<Rightarrow> bool" where
  "word_after s = (case s of [] \<Rightarrow> False | c # _ \<Rightarrow> is_word c)"

text \<open>Greedy repetition: the longest run first, then shorter ones, down to one byte.\<close>

fun plus_try :: "nat \<Rightarrow> string \<Rightarrow> string list
    \<Rightarrow> (char option \<Rightarrow> string \<Rightarrow> string list \<Rightarrow> 'a option) \<Rightarrow> 'a option" where
  "plus_try 0 s cs k = None"
| "plus_try (Suc n) s cs k =
     (case k (Some (s ! n)) (drop (Suc n) s) cs of
        Some r \<Rightarrow> Some r
      | None \<Rightarrow> plus_try n s cs k)"

fun rx_match :: "rx \<Rightarrow> char option \<Rightarrow> string \<Rightarrow> string list
    \<Rightarrow> (char option \<Rightarrow> string \<Rightarrow> string list \<Rightarrow> 'a option) \<Rightarrow> 'a option" where
  "rx_match Eps p s cs k = k p s cs"
| "rx_match (Chr c) p s cs k =
     (case s of [] \<Rightarrow> None | x # xs \<Rightarrow> if x = c then k (Some x) xs cs else None)"
| "rx_match (ChrI c) p s cs k =
     (case s of [] \<Rightarrow> None
      | x # xs \<Rightarrow> if upper_char x = upper_char c then k (Some x) xs cs else None)"
| "rx_match (Cls P) p s cs k =
     (case s of [] \<Rightarrow> None | x # xs \<Rightarrow> if P x then k (Some x) xs cs else None)"
| "rx_match (Plus1 P) p s cs k = plus_try (length (takeWhile P s)) s cs k"
| "rx_match (Seq a b) p s cs k = rx_match a p s cs (\<lambda>p' s' cs'. rx_match b p' s' cs' k)"
| "rx_match (Alt a b) p s cs k =
     (case rx_match a p s cs k of Some r \<Rightarrow> Some r | None \<Rightarrow> rx_match b p s cs k)"
| "rx_match (Grp a) p s cs k =
     rx_match a p s cs (\<lambda>p' s' cs'. k p' s' (cs' @ [take (length s - length s') s]))"
| "rx_match WordB p s cs k =
     (if word_before p \<noteq> word_after s then k p s cs else None)"

text \<open>
  \<^verbatim>\<open>FindStringSubmatch\<close>: the leftmost match; the result lists the whole match and then
  the groups, \<open>None\<close> is Go's \<^verbatim>\<open>nil\<close>.
\<close>

definition match_here :: "rx \<Rightarrow> char option \<Rightarrow> string \<Rightarrow> string list option" where
  "match_here r p s =
     rx_match r p s [] (\<lambda>p' s' cs. Some (take (length s - length s') s # cs))"

fun find_from :: "rx \<Rightarrow> char option \<Rightarrow> string \<Rightarrow> string list option" where
  "find_from r p [] = match_here r p []"
| "find_from r p (x # xs) =
     (case match_here r p (x # xs) of
        Some m \<Rightarrow> Some m
      | None \<Rightarrow> find_from r (Some x) xs)"

definition FindStringSubmatch :: "rx \<Rightarrow> string \<Rightarrow> string list option" where
  "FindStringSubmatch r s = find_from r None s"

definition MatchString :: "rx \<Rightarrow> string \<Rightarrow> bool" where
  "MatchString r s = (FindStringSubmatch r s \<noteq> None)"

definition lit :: "string \<Rightarrow> rx" where
  "lit s = foldr (\<lambda>c r. Seq (Chr c) r) s Eps"

definition lit_i :: "string \<Rightarrow> rx" where
  "lit_i s = foldr (\<lambda>c r. Seq (ChrI c) r) s Eps"

definition alts :: "rx list \<Rightarrow> rx" where
  "alts rs = foldr Alt (butlast rs) (last rs)"

abbreviation (input) sq :: string where
  "sq \<equiv> [CHR 0x27]"

text \<open>\<^verbatim>\<open>'([^']+)'\<close>: a quoted, non-empty run of bytes other than the quote, captured.\<close>

definition quoted :: rx where
  "quoted = Seq (Chr (CHR 0x27)) (Seq (Grp (Plus1 (\<lambda>c. c \<noteq> CHR 0x27))) (Chr (CHR 0x27)))"

definition re_mismatched :: rx where
  "re_mismatched = Seq (lit ''mismatched input '') quoted"

definition re_extraneous :: rx where
  "re_extraneous = Seq (lit ''extraneous input '') quoted"

definition re_no_viable :: rx where
  "re_no_viable = Seq (lit ''no viable alternative at input '') quoted"


subsection \<open>The error pattern registry\<close>

record ErrorPattern =
  ep_Name :: string
  ep_MessagePattern :: rx
  ep_QueryPattern :: "rx option"
  ep_FriendlyTemplate :: string
  ep_SuggestionTemplate :: string

text \<open>\<^verbatim>\<open>\S\<close> is the complement of \<^verbatim>\<open>[\t\n\f\r ]\<close>.\<close>

definition re_nonspace :: "char \<Rightarrow> bool" where
  "re_nonspace c = (c \<notin> set [CHR 0x09, CHR 0x0A, CHR 0x0C, CHR 0x0D, CHR '' ''])"

definition re_typo_message :: rx where
  "re_typo_message = Alt (lit_i ''no viable alternative'') (lit_i ''extraneous input'')"

definition re_mismatched_one_of :: "string list \<Rightarrow> rx" where
  "re_mismatched_one_of ws =
     Seq (lit_i ''mismatched input '')
       (Seq (ChrI (CHR 0x27)) (Seq (Grp (alts (map lit_i ws))) (ChrI (CHR 0x27))))"

definition errorPatterns :: "ErrorPattern list" where
  "errorPatterns =
    [\<lparr>ep_Name = ''typo-form'',
      ep_MessagePattern = re_typo_message,
      ep_QueryPattern = Some (Seq WordB (Seq (lit_i ''FORM'') WordB)),
      ep_FriendlyTemplate = ''Unknown keyword '' @ sq @ ''FORM'' @ sq,
      ep_SuggestionTemplate = ''Did you mean '' @ sq @ ''FROM'' @ sq @ ''?''\<rparr>,
     \<lparr>ep_Name = ''typo-wher'',
      ep_MessagePattern = re_typo_message,
      ep_QueryPattern = Some (Seq WordB (Seq (lit_i ''WHER'') WordB)),
      ep_FriendlyTemplate = ''Unknown keyword '' @ sq @ ''WHER'' @ sq,
      ep_SuggestionTemplate = ''Did you mean '' @ sq @ ''WHERE'' @ sq @ ''?''\<rparr>,
     \<lparr>ep_Name = ''typo-select'',
      ep_MessagePattern = re_mismatched_one_of [''SELEC'', ''SLECT'', ''SEELCT'', ''SELET''],
      ep_QueryPattern = None,
      ep_FriendlyTemplate = ''Unknown keyword '' @ sq @ ''$1'' @ sq,
      ep_SuggestionTemplate = ''Did you mean '' @ sq @ ''SELECT'' @ sq @ ''?''\<rparr>,
     \<lparr>ep_Name = ''typo-insert'',
      ep_MessagePattern = re_mismatched_one_of [''INSRT'', ''INSER'', ''INSRET''],
      ep_QueryPattern = None,
      ep_FriendlyTemplate = ''Unknown keyword '' @ sq @ ''$1'' @ sq,
      ep_SuggestionTemplate = ''Did you mean '' @ sq @ ''INSERT'' @ sq @ ''?''\<rparr>,
     \<lparr>ep_Name = ''typo-update'',
      ep_MessagePattern = re_mismatched_one_of [''UDPATE'', ''UPDAT'', ''UPDTE''],
      ep_QueryPattern = None,
      ep_FriendlyTemplate = ''Unknown keyword '' @ sq @ ''$1'' @ sq,
      ep_SuggestionTemplate = ''Did you mean '' @ sq @ ''UPDATE'' @ sq @ ''?''\<rparr>,
     \<lparr>ep_Name = ''typo-delete'',
      ep_MessagePattern = re_mismatched_one_of [''DELTE'', ''DELET'', ''DELEET''],
      ep_QueryPattern = None,
      ep_FriendlyTemplate = ''Unknown keyword '' @ sq @ ''$1'' @ sq,
      ep_SuggestionTemplate = ''Did you mean '' @ sq @ ''DELETE'' @ sq @ ''?''\<rparr>,
     \<lparr>ep_Name = ''no-viable-alternative'',
      ep_MessagePattern = re_no_viable,
      ep_QueryPattern = None,
      ep_FriendlyTemplate = ''Unexpected syntax near '' @ sq @ ''$1'' @ sq,
      ep_SuggestionTemplate = []\<rparr>,
     \<lparr>ep_Name = ''mismatched-input-expecting'',
      ep_MessagePattern =
        Seq re_mismatched
          (Seq (lit '' expecting {'') (Seq (Grp (Plus1 (\<lambda>c. c \<noteq> CHR ''}''))) (Chr (CHR ''}'')))),
      ep_QueryPattern = None,
      ep_FriendlyTemplate = ''Unexpected '' @ sq @ ''$1'' @ sq,
      ep_SuggestionTemplate = ''Expected one of: $2''\<rparr>,
     \<lparr>ep_Name = ''mismatched-input-single'',
      ep_MessagePattern =
        Seq re_mismatched
          (Seq (lit '' expecting '') (Grp (Seq (Cls (\<lambda>c. c \<noteq> CHR ''{'')) (Plus1 re_nonspace)))),
      ep_QueryPattern = None,
      ep_FriendlyTemplate = ''Unexpected '' @ sq @ ''$1'' @ sq,
      ep_SuggestionTemplate = ''Expected: $2''\<rparr>,
     \<lparr>ep_Name = ''extraneous-input'',
      ep_MessagePattern = Seq re_extraneous (lit '' expecting''),
      ep_QueryPattern = None,
      ep_FriendlyTemplate = ''Unexpected '' @ sq @ ''$1'' @ sq,
      ep_SuggestionTemplate = ''Remove this or check syntax''\<rparr>,
     \<lparr>ep_Name = ''missing-token'',
      ep_MessagePattern = Seq (lit ''missing '') (Seq quoted (Seq (lit '' at '') quoted)),
      ep_QueryPattern = None,
      ep_FriendlyTemplate = ''Missing '' @ sq @ ''$1'' @ sq @ '' before '' @ sq @ ''$2'' @ sq,
      ep_SuggestionTemplate = ''Add '' @ sq @ ''$1'' @ sq\<rparr>,
     \<lparr>ep_Name = ''missing-semicolon'',
      ep_MessagePattern = lit (''missing '' @ sq @ '';'' @ sq @ '' at '' @ sq @ ''<EOF>'' @ sq),
      ep_QueryPattern = None,
      ep_FriendlyTemplate = ''Missing semicolon at end'',
      ep_SuggestionTemplate = ''Add '' @ sq @ '';'' @ sq @ '' at the end of the statement''\<rparr>,
     \<lparr>ep_Name = ''token-recognition'',
      ep_MessagePattern = Seq (lit ''token recognition error at: '') quoted,
      ep_QueryPattern = None,
      ep_FriendlyTemplate = ''Invalid character '' @ sq @ ''$1'' @ sq,
      ep_SuggestionTemplate = ''Remove or escape this character''\<rparr>,
     \<lparr>ep_Name = ''failed-predicate'',
      ep_MessagePattern = Seq (lit ''rule '') (Seq (Grp (Plus1 is_word)) (lit '' failed predicate'')),
      ep_QueryPattern = None,
      ep_FriendlyTemplate = ''Invalid syntax in $1'',
      ep_SuggestionTemplate = []\<rparr>]"


subsection \<open>TransformError\<close>

text \<open>\<^verbatim>\<open>strings.ReplaceAll\<close> for a non-empty \<open>old\<close>: the non-overlapping occurrences, left to right.\<close>

function ReplaceAll :: "string \<Rightarrow> string \<Rightarrow> string \<Rightarrow> string" where
  "ReplaceAll s old new =
     (if s = [] \<or> old = [] then s
      else if take (length old) s = old then new @ ReplaceAll (drop (length old) s) old new
      else hd s # ReplaceAll (tl s) old new)"
  by pat_completeness auto
termination
  by (relation "measure (\<lambda>(s, old, new). length s)") (auto simp: neq_Nil_conv)

declare ReplaceAll.simps [simp del]

text \<open>
  \<^verbatim>\<open>expandTemplate\<close>: for \<^verbatim>\<open>i\<close> from 1 below \<^verbatim>\<open>len(matches)\<close>, replace the placeholder
  \<^verbatim>\<open>"$" + string(rune('0'+i))\<close> by \<^verbatim>\<open>matches[i]\<close>. \<open>expand_loop\<close> runs over the groups
  \<^verbatim>\<open>matches[i:]\<close>.
\<close>

fun expand_loop :: "string \<Rightarrow> nat \<Rightarrow> string list \<Rightarrow> string" where
  "expand_loop result i [] = result"
| "expand_loop result i (m # ms) =
     expand_loop (ReplaceAll result [CHR ''$'', char_of (48 + i)] m) (i + 1) ms"

definition expandTemplate :: "string \<Rightarrow> string list \<Rightarrow> string" where
  "expandTemplate template matches =
     (if template = [] then [] else expand_loop template 1 (tl matches))"

text \<open>
  The two loops over \<^verbatim>\<open>mismatched input\<close> and \<^verbatim>\<open>extraneous input\<close> and the
  \<^verbatim>\<open>no viable alternative\<close> step are the same text in \<^verbatim>\<open>findTypoSuggestion\<close> and in
  \<^verbatim>\<open>suggestKeywordFromError\<close>. The test \<^verbatim>\<open>len(matches) > 1\<close> holds for every match, since
  each pattern has one group.
\<close>

definition did_you_mean :: "string \<Rightarrow> string" where
  "did_you_mean suggestion = ''Did you mean '' @ sq @ suggestion @ sq @ ''?''"

fun token_patterns_loop :: "rx list \<Rightarrow> string \<Rightarrow> string option" where
  "token_patterns_loop [] rawMessage = None"
| "token_patterns_loop (re # res) rawMessage =
     (case FindStringSubmatch re rawMessage of
        Some matches \<Rightarrow>
          (if length matches > 1 \<and> SuggestKeyword (matches ! 1) \<noteq> []
           then Some (did_you_mean (SuggestKeyword (matches ! 1)))
           else token_patterns_loop res rawMessage)
      | None \<Rightarrow> token_patterns_loop res rawMessage)"

definition no_viable_step :: "string \<Rightarrow> string option" where
  "no_viable_step rawMessage =
     (case FindStringSubmatch re_no_viable rawMessage of
        Some matches \<Rightarrow>
          (if length matches > 1 then
             (let words = Fields (matches ! 1) in
              if length words > 0 then
                (let lastWord = TrimRight (last words) '';,()[]{}=<>!@#$%^&*'';
                     suggestion = SuggestKeyword lastWord
                 in if suggestion \<noteq> [] then Some (did_you_mean suggestion) else None)
              else None)
           else None)
      | None \<Rightarrow> None)"

definition findTypoSuggestion :: "string \<Rightarrow> string \<Rightarrow> string" where
  "findTypoSuggestion rawMessage query =
     (case token_patterns_loop [re_mismatched, re_extraneous] rawMessage of
        Some r \<Rightarrow> r
      | None \<Rightarrow> (case no_viable_step rawMessage of Some r \<Rightarrow> r | None \<Rightarrow> []))"

fun extract_loop :: "rx list \<Rightarrow> string \<Rightarrow> string" where
  "extract_loop [] rawMessage = []"
| "extract_loop (re # res) rawMessage =
     (case FindStringSubmatch re rawMessage of
        Some matches \<Rightarrow> (if length matches > 1 then matches ! 1 else extract_loop res rawMessage)
      | None \<Rightarrow> extract_loop res rawMessage)"

definition extractToken :: "string \<Rightarrow> string" where
  "extractToken rawMessage = extract_loop [re_mismatched, re_extraneous] rawMessage"

record TransformResult =
  tr_FriendlyMessage :: string
  tr_Suggestion :: string
  tr_PatternName :: string

fun transform_loop :: "ErrorPattern list \<Rightarrow> string \<Rightarrow> string \<Rightarrow> TransformResult" where
  "transform_loop [] rawMessage query =
     \<lparr>tr_FriendlyMessage = rawMessage, tr_Suggestion = [], tr_PatternName = []\<rparr>"
| "transform_loop (pattern # ps) rawMessage query =
     (case FindStringSubmatch (ep_MessagePattern pattern) rawMessage of
        None \<Rightarrow> transform_loop ps rawMessage query
      | Some matches \<Rightarrow>
          (if (case ep_QueryPattern pattern of None \<Rightarrow> False | Some q \<Rightarrow> \<not> MatchString q query)
           then transform_loop ps rawMessage query
           else
             (let friendly = expandTemplate (ep_FriendlyTemplate pattern) matches;
                  suggestion = expandTemplate (ep_SuggestionTemplate pattern) matches;
                  friendly = (if friendly = [] then rawMessage else friendly);
                  typoSuggestion = findTypoSuggestion rawMessage query;
                  token = extractToken rawMessage;
                  friendly =
                    (if typoSuggestion \<noteq> [] \<and> token \<noteq> [] \<and> SuggestKeyword token \<noteq> []
                     then ''Unknown keyword '' @ sq @ token @ sq else friendly);
                  suggestion = (if typoSuggestion \<noteq> [] then typoSuggestion else suggestion)
              in \<lparr>tr_FriendlyMessage = friendly, tr_Suggestion = suggestion,
                  tr_PatternName = ep_Name pattern\<rparr>)))"

definition TransformError :: "string \<Rightarrow> string \<Rightarrow> TransformResult" where
  "TransformError rawMessage query = transform_loop errorPatterns rawMessage query"


subsection \<open>The error collector of parse.go\<close>

text \<open>
  The last loop of \<^verbatim>\<open>suggestKeywordFromError\<close>, over \<^verbatim>\<open>strings.Fields(input)\<close>: a word
  that is a keyword is skipped, and the first other word for which \<^verbatim>\<open>SuggestKeyword\<close>
  finds a keyword gives the suggestion.
\<close>

fun scan_words :: "string list \<Rightarrow> string" where
  "scan_words [] = []"
| "scan_words (word0 # ws) =
     (let word = TrimLeft (TrimRight word0 '';,()[]{}=<>!@#$%^&*'') ''('';
          upperWord = ToUpper word
      in if exact_match upperWord cqlKeywords then scan_words ws
         else (let suggestion = SuggestKeyword word
               in if suggestion \<noteq> [] then did_you_mean suggestion else scan_words ws))"

definition suggestKeywordFromError :: "string \<Rightarrow> string \<Rightarrow> string" where
  "suggestKeywordFromError msg input =
     (case token_patterns_loop [re_mismatched, re_extraneous] msg of
        Some r \<Rightarrow> r
      | None \<Rightarrow>
          (case no_viable_step msg of
             Some r \<Rightarrow> r
           | None \<Rightarrow> scan_words (Fields input)))"

record Error =
  err_Line :: int
  err_Column :: int
  err_Message :: string
  err_FriendlyMessage :: string
  err_Query :: string
  err_Suggestion :: string

record errorCollector =
  ec_errors :: "Error list"
  ec_input :: string

text \<open>
  \<^verbatim>\<open>SyntaxError\<close>, the callback the parser front-end calls with each raw message; the
  recognizer, offending symbol and exception arguments are ignored by the source.
\<close>

definition SyntaxError :: "errorCollector \<Rightarrow> int \<Rightarrow> int \<Rightarrow> string \<Rightarrow> errorCollector" where
  "SyntaxError c line column msg =
     (let result = TransformError msg (ec_input c);
          suggestion =
            (if tr_Suggestion result = [] then suggestKeywordFromError msg (ec_input c)
             else tr_Suggestion result)
      in c\<lparr>ec_errors := ec_errors c @
            [\<lparr>err_Line = line, err_Column = column, err_Message = msg,
              err_FriendlyMessage = tr_FriendlyMessage result, err_Query = ec_input c,
              err_Suggestion = suggestion\<rparr>]\<rparr>)"


section \<open>Package schema\<close>

text \<open>
  A Go pointer is an \<^typ>\<open>'a option\<close> (\<open>None\<close> is \<^verbatim>\<open>nil\<close>). A Go map from names is a
  list of entries with distinct keys, in the order in which \<^verbatim>\<open>range\<close> visits them (Go
  leaves that order open, so nothing below depends on it), or \<open>None\<close> for the \<^verbatim>\<open>nil\<close>
  map. Reading a missing key of a map, also of the \<^verbatim>\<open>nil\<close> map, gives the zero value of
  the value type: \<^verbatim>\<open>nil\<close> for a pointer. Dereferencing \<^verbatim>\<open>nil\<close> panics, and a panic is a
  value of the result type. Fields of the structs that the modelled functions never read
  (replication, indexes, views, table options) are left out of the records.
\<close>

datatype panic = NilDereference | SliceOutOfRange

type_synonym 'v gomap = "(string \<times> 'v) list option"

definition deref :: "'a option \<Rightarrow> panic + 'a" where
  "deref p = (case p of None \<Rightarrow> Inl NilDereference | Some v \<Rightarrow> Inr v)"

definition then_do :: "panic + 'a \<Rightarrow> ('a \<Rightarrow> panic + 'b) \<Rightarrow> panic + 'b" where
  "then_do m f = (case m of Inl e \<Rightarrow> Inl e | Inr v \<Rightarrow> f v)"

definition ptr_index :: "'a option gomap \<Rightarrow> string \<Rightarrow> 'a option" where
  "ptr_index m k =
     (case m of None \<Rightarrow> None
      | Some kvs \<Rightarrow> (case map_of kvs k of None \<Rightarrow> None | Some p \<Rightarrow> p))"

definition map_keys :: "'v gomap \<Rightarrow> string list" where
  "map_keys m = (case m of None \<Rightarrow> [] | Some kvs \<Rightarrow> map fst kvs)"

record Column =
  col_Name :: string
  col_Type :: string
  col_IsStatic :: bool
  col_IsPartitionKey :: bool
  col_IsClusteringKey :: bool
  col_Position :: int

record Table =
  tbl_Name :: string
  tbl_Keyspace :: string
  tbl_Columns :: "Column option gomap"
  tbl_ColumnOrder :: "string list"
  tbl_PartitionKey :: "string list"
  tbl_ClusteringKey :: "string list"

record Keyspace =
  ks_Name :: string
  ks_Tables :: "Table option gomap"

record Schema =
  Keyspaces :: "Keyspace option gomap"

text \<open>
  The lookups test \<^verbatim>\<open>s == nil || s.Keyspaces == nil\<close> from left to right; the field is read
  only when the pointer is not \<^verbatim>\<open>nil\<close>.
\<close>

definition GetKeyspace :: "Schema option \<Rightarrow> string \<Rightarrow> panic + Keyspace option" where
  "GetKeyspace s name =
     (if s = None then Inr None
      else then_do (deref s) (\<lambda>sv.
        if Keyspaces sv = None then Inr None
        else then_do (deref s) (\<lambda>sv. Inr (ptr_index (Keyspaces sv) name))))"

definition GetTable :: "Keyspace option \<Rightarrow> string \<Rightarrow> panic + Table option" where
  "GetTable ks name =
     (if ks = None then Inr None
      else then_do (deref ks) (\<lambda>kv.
        if ks_Tables kv = None then Inr None
        else then_do (deref ks) (\<lambda>kv. Inr (ptr_index (ks_Tables kv) name))))"

definition GetColumn :: "Table option \<Rightarrow> string \<Rightarrow> panic + Column option" where
  "GetColumn t name =
     (if t = None then Inr None
      else then_do (deref t) (\<lambda>tv.
        if tbl_Columns tv = None then Inr None
        else then_do (deref t) (\<lambda>tv. Inr (ptr_index (tbl_Columns tv) name))))"

text \<open>\<^verbatim>\<open>AllColumns\<close>: the columns of \<^verbatim>\<open>ColumnOrder\<close> that \<^verbatim>\<open>GetColumn\<close> finds.\<close>

fun all_columns_loop :: "Table option \<Rightarrow> string list \<Rightarrow> panic + Column list" where
  "all_columns_loop t [] = Inr []"
| "all_columns_loop t (name # names) =
     then_do (GetColumn t name) (\<lambda>col.
       then_do (all_columns_loop t names) (\<lambda>cols.
         Inr (case col of None \<Rightarrow> cols | Some c \<Rightarrow> c # cols)))"

definition AllColumns :: "Table option \<Rightarrow> panic + Column list" where
  "AllColumns t =
     (if t = None then Inr []
      else then_do (deref t) (\<lambda>tv. all_columns_loop t (tbl_ColumnOrder tv)))"

definition TableNames :: "Keyspace option \<Rightarrow> panic + string list" where
  "TableNames ks =
     (if ks = None then Inr []
      else then_do (deref ks) (\<lambda>kv.
        if ks_Tables kv = None then Inr [] else Inr (map_keys (ks_Tables kv))))"

definition KeyspaceNames :: "Schema option \<Rightarrow> panic + string list" where
  "KeyspaceNames s =
     (if s = None then Inr []
      else then_do (deref s) (\<lambda>sv.
        if Keyspaces sv = None then Inr [] else Inr (map_keys (Keyspaces sv))))"


section \<open>Package types: statement types\<close>

datatype StatementType =
    StatementUnknown | StatementSelect | StatementInsert | StatementUpdate | StatementDelete
  | StatementBatch | StatementCreateKeyspace | StatementAlterKeyspace | StatementDropKeyspace
  | StatementCreateTable | StatementAlterTable | StatementDropTable | StatementTruncate
  | StatementCreateIndex | StatementDropIndex | StatementCreateMaterializedView
  | StatementAlterMaterializedView | StatementDropMaterializedView | StatementCreateType
  | StatementAlterType | StatementDropType | StatementCreateFunction | StatementDropFunction
  | StatementCreateAggregate | StatementDropAggregate | StatementCreateTrigger
  | StatementDropTrigger | StatementCreateRole | StatementAlterRole | StatementDropRole
  | StatementCreateUser | StatementAlterUser | StatementDropUser | StatementGrant
  | StatementRevoke | StatementListRoles | StatementListPermissions | StatementUse
  | StatementPruneMaterializedView

definition IsDML :: "StatementType \<Rightarrow> bool" where
  "IsDML s = (s \<in> set [StatementSelect, StatementInsert, StatementUpdate, StatementDelete,
                         StatementBatch])"


section \<open>Package analyze\<close>

subsection \<open>Results, references, errors and warnings\<close>

record Position =
  pos_Line :: int
  pos_Column :: int
  pos_Offset :: int

record FunctionCall =
  fc_Name :: string
  fc_ArgCount :: int
  fc_HasStar :: bool
  fc_Position :: "Position option"

record References =
  ref_Keyspace :: string
  ref_Table :: string
  ref_Columns :: "string list"
  ref_SelectColumns :: "string list"
  ref_WhereColumns :: "string list"
  ref_UpdateColumns :: "string list"
  ref_InsertColumns :: "string list"
  ref_OrderByColumns :: "string list"
  ref_Functions :: "string list"
  ref_FunctionCalls :: "FunctionCall list"
  ref_HasAllowFiltering :: bool
  ref_Limit :: int

datatype SchemaErrorType =
    ErrUnknownKeyspace | ErrUnknownTable | ErrUnknownColumn | ErrUnknownFunction
  | ErrTypeMismatch | ErrFunctionArgCount | ErrFunctionArgCountRange

record SchemaError =
  se_Type :: SchemaErrorType
  se_Message :: string
  se_Suggestion :: string
  se_Object :: string
  se_Position :: "Position option"

datatype WarningType =
    WarnMissingPartitionKey | WarnMissingClusteringKey | WarnAllowFilteringNeeded
  | WarnAllowFilteringPresent | WarnNoWhereClause | WarnNoLimit | WarnLargeLimit
  | WarnSelectStar

datatype Severity = SeverityError | SeverityWarning | SeverityInfo

record Warning =
  w_Type :: WarningType
  w_Severity :: Severity
  w_Message :: string
  w_Suggestion :: string
  w_Position :: "Position option"

record Result =
  res_Query :: string
  res_Type :: StatementType
  res_IsValid :: bool
  res_SyntaxErrors :: "Error list"
  res_References :: References
  res_SchemaErrors :: "SchemaError list"
  res_Warnings :: "Warning list"

definition WarningsOfType :: "Result \<Rightarrow> WarningType \<Rightarrow> Warning list" where
  "WarningsOfType r t = filter (\<lambda>w. w_Type w = t) (res_Warnings r)"


record AnalyzeOptions =
  opt_Schema :: "Schema option"
  opt_DefaultKeyspace :: string
  opt_WarnOnSelectStar :: bool
  opt_WarnOnNoLimit :: bool
  opt_LargeLimitThreshold :: int

definition DefaultOptions :: AnalyzeOptions where
  "DefaultOptions =
     \<lparr>opt_Schema = None, opt_DefaultKeyspace = [], opt_WarnOnSelectStar = False,
      opt_WarnOnNoLimit = False, opt_LargeLimitThreshold = 0\<rparr>"

text \<open>The verb \<^verbatim>\<open>%d\<close> of \<^verbatim>\<open>fmt.Sprintf\<close>: a decimal numeral.\<close>

function nat_dec :: "nat \<Rightarrow> string" where
  "nat_dec n =
     (if n < 10 then [''0123456789'' ! n]
      else nat_dec (n div 10) @ [''0123456789'' ! (n mod 10)])"
  by pat_completeness auto
termination
  by (relation "measure id") auto

declare nat_dec.simps [simp del]

definition Itoa :: "int \<Rightarrow> string" where
  "Itoa i = (if i < 0 then CHR ''-'' # nat_dec (nat (- i)) else nat_dec (nat i))"

subsection \<open>levenshtein and findClosest\<close>

text \<open>
  The package has its own \<^verbatim>\<open>levenshtein\<close>, over a full matrix \<^verbatim>\<open>d\<close>, and its own copy of
  \<^verbatim>\<open>min\<close> (the same text as in package parse, so \<^const>\<open>min3\<close> models both). The matrix
  starts with \<^verbatim>\<open>d[i][0] = i\<close> and \<^verbatim>\<open>d[0][j] = j\<close>, every other cell zero.
\<close>

definition lev_init :: "string \<Rightarrow> string \<Rightarrow> nat list list" where
  "lev_init s1 s2 =
     (map (\<lambda>i. (replicate (length s2 + 1) 0)[0 := i]) [0 ..< length s1 + 1])
       [0 := [0 ..< length s2 + 1]]"

function lev_inner :: "string \<Rightarrow> string \<Rightarrow> nat list list \<Rightarrow> nat \<Rightarrow> nat \<Rightarrow> nat list list" where
  "lev_inner s1 s2 d i j =
     (if j \<le> length s2 then
        (let cost = (if s1 ! (i - 1) = s2 ! (j - 1) then 0 else 1) in
         lev_inner s1 s2
           (d[i := (d ! i)[j := min3 (d ! (i - 1) ! j + 1) (d ! i ! (j - 1) + 1)
                                  (d ! (i - 1) ! (j - 1) + cost)]])
           i (j + 1))
      else d)"
  by pat_completeness auto
termination
  by (relation "measure (\<lambda>(s1, s2, d, i, j). Suc (length s2) - j)") auto

declare lev_inner.simps [simp del]

function lev_outer :: "string \<Rightarrow> string \<Rightarrow> nat list list \<Rightarrow> nat \<Rightarrow> nat list list" where
  "lev_outer s1 s2 d i =
     (if i \<le> length s1 then lev_outer s1 s2 (lev_inner s1 s2 d i 1) (i + 1) else d)"
  by pat_completeness auto
termination
  by (relation "measure (\<lambda>(s1, s2, d, i). Suc (length s1) - i)") auto

declare lev_outer.simps [simp del]

definition levenshtein :: "string \<Rightarrow> string \<Rightarrow> nat" where
  "levenshtein s1 s2 =
     (if length s1 = 0 then length s2
      else if length s2 = 0 then length s1
      else lev_outer s1 s2 (lev_init s1 s2) 1 ! length s1 ! length s2)"

fun closest_candidate :: "string \<Rightarrow> string list \<Rightarrow> string \<times> nat \<Rightarrow> string \<times> nat" where
  "closest_candidate input [] best = best"
| "closest_candidate input (candidate # cs) (bestMatch, bestDistance) =
     (let dist = levenshtein input (ToLower candidate)
      in if dist < bestDistance then closest_candidate input cs (candidate, dist)
         else closest_candidate input cs (bestMatch, bestDistance))"

definition findClosest :: "string \<Rightarrow> string list \<Rightarrow> string" where
  "findClosest input candidates = fst (closest_candidate (ToLower input) candidates ([], 3))"

definition suggestion_for :: "string \<Rightarrow> string list \<Rightarrow> string" where
  "suggestion_for name names =
     (let suggestion = findClosest name names
      in if suggestion \<noteq> [] then did_you_mean suggestion else [])"

definition suggestKeyspace :: "Schema option \<Rightarrow> string \<Rightarrow> panic + string" where
  "suggestKeyspace s name =
     (if s = None then Inr []
      else then_do (KeyspaceNames s) (\<lambda>names. Inr (suggestion_for name names)))"

definition suggestTable :: "Keyspace option \<Rightarrow> string \<Rightarrow> panic + string" where
  "suggestTable ks name =
     (if ks = None then Inr []
      else then_do (TableNames ks) (\<lambda>names. Inr (suggestion_for name names)))"

definition suggestColumn :: "Table option \<Rightarrow> string \<Rightarrow> panic + string" where
  "suggestColumn tbl name =
     (if tbl = None then Inr []
      else then_do (AllColumns tbl) (\<lambda>cols. Inr (suggestion_for name (map col_Name cols))))"


subsection \<open>Partition-key and clustering-key checks\<close>

text \<open>
  \<^verbatim>\<open>whereColSet\<close> is a \<^verbatim>\<open>map[string]bool\<close>, read at missing keys as \<^verbatim>\<open>false\<close>: a function
  to \<^typ>\<open>bool\<close>, built by the loop over \<^verbatim>\<open>refs.WhereColumns\<close>.
\<close>

fun where_set_loop :: "string list \<Rightarrow> (string \<Rightarrow> bool) \<Rightarrow> (string \<Rightarrow> bool)" where
  "where_set_loop [] m = m"
| "where_set_loop (col # cols) m = where_set_loop cols (m(ToLower col := True))"

fun missing_loop :: "(string \<Rightarrow> bool) \<Rightarrow> string list \<Rightarrow> string list \<Rightarrow> string list" where
  "missing_loop whereColSet [] missingPK = missingPK"
| "missing_loop whereColSet (pkCol # pks) missingPK =
     missing_loop whereColSet pks
       (if \<not> whereColSet (ToLower pkCol) then missingPK @ [pkCol] else missingPK)"

definition clustering_warning :: "string \<Rightarrow> Warning" where
  "clustering_warning ckCol =
     \<lparr>w_Type = WarnMissingClusteringKey, w_Severity = SeverityWarning,
      w_Message = ''Clustering column '' @ sq @ ckCol @ sq
                    @ '' is used without preceding clustering columns'',
      w_Suggestion =
        ''Include preceding clustering columns in WHERE clause or use ALLOW FILTERING'',
      w_Position = None\<rparr>"

fun clustering_loop :: "(string \<Rightarrow> bool) \<Rightarrow> string list \<Rightarrow> bool \<Rightarrow> Result \<Rightarrow> Result" where
  "clustering_loop whereColSet [] foundGap result = result"
| "clustering_loop whereColSet (ckCol # cks) foundGap result =
     (let hasCol = whereColSet (ToLower ckCol)
      in if \<not> hasCol then clustering_loop whereColSet cks True result
         else if foundGap then
           clustering_loop whereColSet cks foundGap
             (result\<lparr>res_Warnings := res_Warnings result @ [clustering_warning ckCol]\<rparr>)
         else clustering_loop whereColSet cks foundGap result)"

definition validateClusteringKeyOrder :: "Result \<Rightarrow> Table \<Rightarrow> (string \<Rightarrow> bool) \<Rightarrow> Result" where
  "validateClusteringKeyOrder result tbl whereColSet =
     clustering_loop whereColSet (tbl_ClusteringKey tbl) False result"

definition partition_warning :: "string list \<Rightarrow> string \<Rightarrow> Warning" where
  "partition_warning missingPK suggestion =
     \<lparr>w_Type = WarnMissingPartitionKey, w_Severity = SeverityError,
      w_Message = ''Query is missing partition key column(s): '' @ Join missingPK '', '',
      w_Suggestion = suggestion, w_Position = None\<rparr>"

text \<open>
  \<^verbatim>\<open>validatePartitionKey\<close> is called with a table pointer that its caller has just
  tested against \<^verbatim>\<open>nil\<close>, so the table is a value here.
\<close>

definition validatePartitionKey :: "Result \<Rightarrow> Table \<Rightarrow> Result" where
  "validatePartitionKey result tbl =
     (let refs = res_References result;
          whereColSet = where_set_loop (ref_WhereColumns refs) (\<lambda>k. False);
          missingPK = missing_loop whereColSet (tbl_PartitionKey tbl) [];
          result =
            (if length missingPK > 0 then
               (if length missingPK = length (tbl_PartitionKey tbl) then
                  result\<lparr>res_Warnings := res_Warnings result @
                    [partition_warning missingPK
                       ''Add partition key columns to WHERE clause or use ALLOW FILTERING'']\<rparr>
                else
                  result\<lparr>res_Warnings := res_Warnings result @
                    [partition_warning missingPK
                       ''All partition key columns must be specified'']\<rparr>)
             else result)
      in if length (tbl_ClusteringKey tbl) > 0 \<and> length missingPK = 0
         then validateClusteringKeyOrder result tbl whereColSet
         else result)"

subsection \<open>validateSchema\<close>

fun columns_loop :: "Table option \<Rightarrow> string \<Rightarrow> string list \<Rightarrow> Result \<Rightarrow> panic + Result" where
  "columns_loop tbl tblName [] result = Inr result"
| "columns_loop tbl tblName (colName # cols) result =
     (if colName = ''*'' then columns_loop tbl tblName cols result
      else
        then_do (GetColumn tbl colName) (\<lambda>col.
          if col = None then
            then_do (suggestColumn tbl colName) (\<lambda>suggestion.
              columns_loop tbl tblName cols
                (result\<lparr>res_SchemaErrors := res_SchemaErrors result @
                   [\<lparr>se_Type = ErrUnknownColumn,
                     se_Message = ''Column '' @ sq @ colName @ sq @ '' not found in table ''
                                    @ sq @ tblName @ sq,
                     se_Suggestion = suggestion, se_Object = colName,
                     se_Position = None\<rparr>]\<rparr>))
          else columns_loop tbl tblName cols result))"

text \<open>The part of \<^verbatim>\<open>validateSchema\<close> after the keyspace has been looked up.\<close>

definition validate_in_keyspace :: "Result \<Rightarrow> Keyspace option \<Rightarrow> panic + Result" where
  "validate_in_keyspace result ks =
     (let refs = res_References result in
      if ks = None then Inr result
      else
        then_do (GetTable ks (ref_Table refs)) (\<lambda>tbl.
          if tbl = None then
            then_do (deref ks) (\<lambda>kv.
              then_do (suggestTable ks (ref_Table refs)) (\<lambda>suggestion.
                Inr (result\<lparr>res_SchemaErrors := res_SchemaErrors result @
                   [\<lparr>se_Type = ErrUnknownTable,
                     se_Message = ''Table '' @ sq @ ref_Table refs @ sq
                                    @ '' does not exist in keyspace '' @ sq @ ks_Name kv @ sq,
                     se_Suggestion = suggestion, se_Object = ref_Table refs,
                     se_Position = None\<rparr>]\<rparr>)))
          else
            then_do (deref tbl) (\<lambda>tv.
              then_do (columns_loop tbl (tbl_Name tv) (ref_Columns refs) result) (\<lambda>result.
                if IsDML (res_Type result) \<and> res_Type result \<noteq> StatementInsert
                then Inr (validatePartitionKey result tv)
                else Inr result))))"

definition validateSchema :: "Result \<Rightarrow> AnalyzeOptions \<Rightarrow> panic + Result" where
  "validateSchema result opts =
     (let refs = res_References result; s = opt_Schema opts in
      if ref_Keyspace refs \<noteq> [] then
        then_do (GetKeyspace s (ref_Keyspace refs)) (\<lambda>ks.
          if ks = None then
            then_do (suggestKeyspace s (ref_Keyspace refs)) (\<lambda>suggestion.
              Inr (result\<lparr>res_SchemaErrors := res_SchemaErrors result @
                 [\<lparr>se_Type = ErrUnknownKeyspace,
                   se_Message = ''Keyspace '' @ sq @ ref_Keyspace refs @ sq @ '' does not exist'',
                   se_Suggestion = suggestion, se_Object = ref_Keyspace refs,
                   se_Position = None\<rparr>]\<rparr>))
          else validate_in_keyspace result ks)
      else if opt_DefaultKeyspace opts \<noteq> [] then
        then_do (GetKeyspace s (opt_DefaultKeyspace opts)) (\<lambda>ks. validate_in_keyspace result ks)
      else validate_in_keyspace result None)"

subsection \<open>Function-call validation\<close>

text \<open>
  The signature table is built at start-up from \<^verbatim>\<open>cqldata.GenFunctions\<close>, a generated
  catalogue that is not part of the sources at hand; the catalogue is a parameter. Its
  entries are the \<^verbatim>\<open>FunctionDef\<close> of the generator, of which \<^verbatim>\<open>Name\<close> and \<^verbatim>\<open>Params\<close> are
  read. The table maps names to signatures; an update through a pointer into the table
  is an update of the table.
\<close>

record FunctionDef =
  fd_Name :: string
  fd_ReturnType :: string
  fd_Params :: "string list"
  fd_Pure :: bool
  fd_Aggregate :: bool

record FunctionSignature =
  sig_Name :: string
  sig_MinArgs :: int
  sig_MaxArgs :: int
  sig_AllowStar :: bool

type_synonym sigtab = "string \<Rightarrow> FunctionSignature option"

text \<open>
  The three shapes of statement in \<^verbatim>\<open>applySpecialCases\<close>: change the entry of a name if
  there is one; change it if there is one and add a fresh entry otherwise; add a fresh
  entry if there is none.
\<close>

definition change_entry ::
  "string \<Rightarrow> (FunctionSignature \<Rightarrow> FunctionSignature) \<Rightarrow> sigtab \<Rightarrow> sigtab" where
  "change_entry name f sigs =
     (case sigs name of None \<Rightarrow> sigs | Some sig \<Rightarrow> sigs(name \<mapsto> f sig))"

definition change_or_add_entry ::
  "string \<Rightarrow> (FunctionSignature \<Rightarrow> FunctionSignature) \<Rightarrow> FunctionSignature \<Rightarrow> sigtab \<Rightarrow> sigtab" where
  "change_or_add_entry name f fresh sigs =
     (case sigs name of None \<Rightarrow> sigs(name \<mapsto> fresh) | Some sig \<Rightarrow> sigs(name \<mapsto> f sig))"

definition add_entry :: "string \<Rightarrow> FunctionSignature \<Rightarrow> sigtab \<Rightarrow> sigtab" where
  "add_entry name fresh sigs =
     (case sigs name of None \<Rightarrow> sigs(name \<mapsto> fresh) | Some sig \<Rightarrow> sigs)"

definition no_args :: "string \<Rightarrow> FunctionSignature" where
  "no_args name = \<lparr>sig_Name = name, sig_MinArgs = 0, sig_MaxArgs = 0, sig_AllowStar = False\<rparr>"

definition applySpecialCases :: "sigtab \<Rightarrow> sigtab" where
  "applySpecialCases sigs0 =
     (let sigs = change_entry ''count''
                   (\<lambda>sig. sig\<lparr>sig_MinArgs := 1, sig_MaxArgs := 1, sig_AllowStar := True\<rparr>) sigs0;
          sigs = change_entry ''token'' (\<lambda>sig. sig\<lparr>sig_MinArgs := 1, sig_MaxArgs := - 1\<rparr>) sigs;
          sigs = change_or_add_entry ''uuid'' (\<lambda>sig. sig\<lparr>sig_MinArgs := 0, sig_MaxArgs := 0\<rparr>)
                   (no_args ''uuid'') sigs;
          sigs = change_or_add_entry ''now'' (\<lambda>sig. sig\<lparr>sig_MinArgs := 0, sig_MaxArgs := 0\<rparr>)
                   (no_args ''now'') sigs;
          sigs = change_entry ''ttl'' (\<lambda>sig. sig\<lparr>sig_MinArgs := 1, sig_MaxArgs := 1\<rparr>) sigs;
          sigs = change_entry ''writetime'' (\<lambda>sig. sig\<lparr>sig_MinArgs := 1, sig_MaxArgs := 1\<rparr>) sigs;
          sigs = change_entry ''cast'' (\<lambda>sig. sig\<lparr>sig_MinArgs := 2, sig_MaxArgs := 2\<rparr>) sigs;
          sigs = add_entry ''currentdate'' (no_args ''currentdate'') sigs;
          sigs = add_entry ''currenttime'' (no_args ''currenttime'') sigs;
          sigs = add_entry ''currenttimestamp'' (no_args ''currenttimestamp'') sigs;
          sigs = add_entry ''currenttimeuuid'' (no_args ''currenttimeuuid'') sigs
      in sigs)"

fun signatures_loop :: "FunctionDef list \<Rightarrow> sigtab \<Rightarrow> sigtab" where
  "signatures_loop [] sigs = sigs"
| "signatures_loop (f # fs) sigs =
     (let name = ToLower (fd_Name f); paramCount = int (length (fd_Params f)) in
      case sigs name of
        Some existing \<Rightarrow>
          (let existing = (if paramCount < sig_MinArgs existing
                           then existing\<lparr>sig_MinArgs := paramCount\<rparr> else existing);
               existing = (if paramCount > sig_MaxArgs existing
                           then existing\<lparr>sig_MaxArgs := paramCount\<rparr> else existing)
           in signatures_loop fs (sigs(name \<mapsto> existing)))
      | None \<Rightarrow>
          signatures_loop fs
            (sigs(name \<mapsto> \<lparr>sig_Name = name, sig_MinArgs = paramCount, sig_MaxArgs = paramCount,
                            sig_AllowStar = False\<rparr>)))"

definition buildFunctionSignatures :: "FunctionDef list \<Rightarrow> sigtab" where
  "buildFunctionSignatures GenFunctions = applySpecialCases (signatures_loop GenFunctions Map.empty)"

definition arg_error :: "SchemaErrorType \<Rightarrow> string \<Rightarrow> FunctionCall \<Rightarrow> SchemaError" where
  "arg_error ty message call =
     \<lparr>se_Type = ty, se_Message = message, se_Suggestion = [], se_Object = fc_Name call,
      se_Position = fc_Position call\<rparr>"

definition validateFunctionCall :: "sigtab \<Rightarrow> FunctionCall \<Rightarrow> SchemaError option" where
  "validateFunctionCall builtinFunctions call =
     (case builtinFunctions (fc_Name call) of
        None \<Rightarrow> None
      | Some sig \<Rightarrow>
          if fc_HasStar call then
            (if \<not> sig_AllowStar sig
             then Some (arg_error ErrFunctionArgCount
                          (fc_Name call @ ''() does not accept * as argument'') call)
             else None)
          else if sig_MaxArgs sig = - 1 then
            (if fc_ArgCount call < sig_MinArgs sig
             then Some (arg_error ErrFunctionArgCount
                          (fc_Name call @ ''() requires at least '' @ Itoa (sig_MinArgs sig)
                             @ '' argument(s), got '' @ Itoa (fc_ArgCount call)) call)
             else None)
          else if sig_MinArgs sig = sig_MaxArgs sig then
            (if fc_ArgCount call \<noteq> sig_MinArgs sig
             then Some (arg_error ErrFunctionArgCount
                          (fc_Name call @ ''() takes '' @ Itoa (sig_MinArgs sig)
                             @ '' argument(s), got '' @ Itoa (fc_ArgCount call)) call)
             else None)
          else
            (if fc_ArgCount call < sig_MinArgs sig \<or> fc_ArgCount call > sig_MaxArgs sig
             then Some (arg_error ErrFunctionArgCountRange
                          (fc_Name call @ ''() takes '' @ Itoa (sig_MinArgs sig) @ ''-''
                             @ Itoa (sig_MaxArgs sig) @ '' argument(s), got ''
                             @ Itoa (fc_ArgCount call)) call)
             else None))"

fun ValidateFunctionCalls :: "sigtab \<Rightarrow> FunctionCall list \<Rightarrow> SchemaError list" where
  "ValidateFunctionCalls builtinFunctions [] = []"
| "ValidateFunctionCalls builtinFunctions (call # calls) =
     (case validateFunctionCall builtinFunctions call of
        Some err \<Rightarrow> err # ValidateFunctionCalls builtinFunctions calls
      | None \<Rightarrow> ValidateFunctionCalls builtinFunctions calls)"

subsection \<open>generateWarnings and Analyze\<close>

definition info_warning :: "WarningType \<Rightarrow> Severity \<Rightarrow> string \<Rightarrow> string \<Rightarrow> Warning" where
  "info_warning ty sev message suggestion =
     \<lparr>w_Type = ty, w_Severity = sev, w_Message = message, w_Suggestion = suggestion,
      w_Position = None\<rparr>"

definition add_warning :: "Result \<Rightarrow> Warning \<Rightarrow> Result" where
  "add_warning result w = result\<lparr>res_Warnings := res_Warnings result @ [w]\<rparr>"

definition generateWarnings :: "Result \<Rightarrow> AnalyzeOptions \<Rightarrow> Result" where
  "generateWarnings result opts =
     (let refs = res_References result in
      if res_Type result \<noteq> StatementSelect then result
      else
        (let result =
               (if opt_WarnOnSelectStar opts \<and> ''*'' \<in> set (ref_SelectColumns refs)
                then add_warning result
                       (info_warning WarnSelectStar SeverityInfo ''SELECT * retrieves all columns''
                          ''Consider selecting only needed columns'')
                else result);
             result =
               (if opt_WarnOnNoLimit opts \<and> ref_Limit refs < 0
                then add_warning result
                       (info_warning WarnNoLimit SeverityInfo ''Query has no LIMIT clause''
                          ''Consider adding LIMIT to avoid fetching too many rows'')
                else result);
             result =
               (if opt_LargeLimitThreshold opts > 0 \<and> ref_Limit refs > opt_LargeLimitThreshold opts
                then add_warning result
                       (info_warning WarnLargeLimit SeverityWarning
                          (''LIMIT '' @ Itoa (ref_Limit refs) @ '' may return too many rows'')
                          (''Consider using a smaller limit (threshold: ''
                             @ Itoa (opt_LargeLimitThreshold opts) @ '')''))
                else result);
             result =
               (if length (ref_WhereColumns refs) = 0
                then add_warning result
                       (info_warning WarnNoWhereClause SeverityInfo
                          ''Query has no WHERE clause - will scan entire table''
                          ''Add WHERE clause to filter results'')
                else result);
             result =
               (if ref_HasAllowFiltering refs
                then add_warning result
                       (info_warning WarnAllowFilteringPresent SeverityWarning
                          ''Query uses ALLOW FILTERING which may be slow''
                          ''Consider restructuring query to avoid ALLOW FILTERING'')
                else result)
         in result))"

text \<open>
  \<^verbatim>\<open>Analyze\<close>. The parser front-end and the tree walk of \<^verbatim>\<open>ExtractReferences\<close> are outside
  the model: their result for the query (references, statement type, syntax errors) is
  the argument \<open>extracted\<close>. \<open>GenFunctions\<close> is the generated catalogue behind the
  signature table. A \<^verbatim>\<open>nil\<close> options pointer stands for the default options.
\<close>

definition Analyze ::
  "FunctionDef list \<Rightarrow> string \<Rightarrow> References \<times> StatementType \<times> Error list
     \<Rightarrow> AnalyzeOptions option \<Rightarrow> panic + Result" where
  "Analyze GenFunctions cql extracted opts0 =
     (let opts = (case opts0 of None \<Rightarrow> DefaultOptions | Some opts \<Rightarrow> opts);
          (refs, stmtType, syntaxErrors) = extracted;
          result = \<lparr>res_Query = cql, res_Type = stmtType,
                    res_IsValid = (length syntaxErrors = 0), res_SyntaxErrors = syntaxErrors,
                    res_References = refs, res_SchemaErrors = [], res_Warnings = []\<rparr>
      in if \<not> res_IsValid result then Inr result
         else
           (let refs = (if ref_Keyspace refs = [] \<and> opt_DefaultKeyspace opts \<noteq> []
                        then refs\<lparr>ref_Keyspace := opt_DefaultKeyspace opts\<rparr> else refs);
                result = result\<lparr>res_References := refs\<rparr>
            in then_do
                 (if opt_Schema opts \<noteq> None \<and> ref_Table refs \<noteq> []
                  then validateSchema result opts else Inr result)
                 (\<lambda>result.
                    (let result =
                           (if length (ref_FunctionCalls refs) > 0
                            then result\<lparr>res_SchemaErrors := res_SchemaErrors result @
                                   ValidateFunctionCalls (buildFunctionSignatures GenFunctions)
                                     (ref_FunctionCalls refs)\<rparr>
                            else result)
                     in Inr (generateWarnings result opts)))))"


section \<open>Package tokenize\<close>

text \<open>
  The lexer is generated and not part of the sources at hand: the numbers of its token
  types (\<^verbatim>\<open>parser.CqlLexerLR_BRACKET\<close> and so on) are a parameter, a record with one field
  for each constant the code names. The hover tables, of which the sources show only a
  part, are a parameter as well, each given by its list of keys. The constants of the ANTLR
  runtime are the published ones: \<^verbatim>\<open>TokenEOF = -1\<close>, \<^verbatim>\<open>TokenDefaultChannel = 0\<close>,
  \<^verbatim>\<open>TokenHiddenChannel = 1\<close>.
\<close>

record CqlLexer =
  LR_BRACKET :: int
  RR_BRACKET :: int
  LC_BRACKET :: int
  RC_BRACKET :: int
  LS_BRACKET :: int
  RS_BRACKET :: int
  COMMA :: int
  SEMI :: int
  COLON :: int
  DOT :: int
  STAR :: int
  DIVIDE :: int
  MODULE :: int
  PLUS :: int
  MINUS :: int
  MINUSMINUS :: int
  OPERATOR_EQ :: int
  OPERATOR_LT :: int
  OPERATOR_GT :: int
  OPERATOR_LTE :: int
  OPERATOR_GTE :: int
  OPERATOR_NEQ :: int
  STRING_LITERAL :: int
  CODE_BLOCK :: int
  DECIMAL_LITERAL :: int
  FLOAT_LITERAL :: int
  HEXADECIMAL_LITERAL :: int
  REAL_LITERAL :: int
  QMARK :: int
  UUID :: int
  DURATION_LITERAL :: int
  COMMENT_INPUT :: int
  LINE_COMMENT :: int
  SPEC_MYSQL_COMMENT :: int
  OBJECT_NAME :: int
  K_ADD :: int
  K_VECTOR_SEARCH_INDEXING :: int

record HoverTables =
  hv_Keywords :: "string list"
  hv_Functions :: "string list"
  hv_Types :: "string list"

definition IsKeyword :: "HoverTables \<Rightarrow> string \<Rightarrow> bool" where
  "IsKeyword hv name = (ToUpper name \<in> set (hv_Keywords hv))"

definition IsFunction :: "HoverTables \<Rightarrow> string \<Rightarrow> bool" where
  "IsFunction hv name = (ToLower name \<in> set (hv_Functions hv))"

definition IsType :: "HoverTables \<Rightarrow> string \<Rightarrow> bool" where
  "IsType hv name = (ToLower name \<in> set (hv_Types hv))"

definition TokenEOF :: int where
  "TokenEOF = - 1"

definition TokenDefaultChannel :: int where
  "TokenDefaultChannel = 0"

definition TokenHiddenChannel :: int where
  "TokenHiddenChannel = 1"

record AntlrToken =
  tk_TokenType :: int
  tk_Text :: string
  tk_Channel :: int
  tk_Start :: int
  tk_Stop :: int

datatype TokenType =
    TokenKeyword | TokenFunction | TokenType' | TokenString | TokenNumber | TokenComment
  | TokenIdentifier | TokenOperator | TokenPunctuation | TokenPartitionKey
  | TokenClusteringKey | TokenColumn | TokenPlaceholder

record Token =
  Start :: int
  End :: int
  Text :: string
  Type :: TokenType

record Context =
  PartitionKeys :: "string list"
  ClusteringKeys :: "string list"
  Columns :: "string list"

text \<open>
  A \<^verbatim>\<open>map[string]bool\<close> that may be \<^verbatim>\<open>nil\<close>: the list of its keys, or \<open>None\<close>. The test
  \<^verbatim>\<open>m != nil && m[k]\<close> is \<open>in_set\<close>.
\<close>

definition makeSet :: "string list \<Rightarrow> string list option" where
  "makeSet items = (if length items = 0 then None else Some (map ToLower items))"

definition in_set :: "string list option \<Rightarrow> string \<Rightarrow> bool" where
  "in_set m k = (case m of None \<Rightarrow> False | Some ks \<Rightarrow> k \<in> set ks)"

text \<open>The slice expression \<^verbatim>\<open>input[n:]\<close> panics unless \<^verbatim>\<open>0 <= n <= len(input)\<close>.\<close>

definition slice_from :: "string \<Rightarrow> int \<Rightarrow> panic + string" where
  "slice_from input n =
     (if 0 \<le> n \<and> n \<le> int (length input) then Inr (drop (nat n) input)
      else Inl SliceOutOfRange)"

definition HasPrefix :: "string \<Rightarrow> string \<Rightarrow> bool" where
  "HasPrefix s pre = (take (length pre) s = pre)"

definition isKeywordToken :: "CqlLexer \<Rightarrow> int \<Rightarrow> bool" where
  "isKeywordToken lx tokenType = (tokenType \<ge> K_ADD lx \<and> tokenType \<le> K_VECTOR_SEARCH_INDEXING lx)"

definition semantic_or :: "string list option \<Rightarrow> string list option \<Rightarrow> string list option
    \<Rightarrow> string \<Rightarrow> TokenType \<Rightarrow> TokenType" where
  "semantic_or partitionKeys clusteringKeys columns lowerText otherwise =
     (if in_set partitionKeys lowerText then TokenPartitionKey
      else if in_set clusteringKeys lowerText then TokenClusteringKey
      else if in_set columns lowerText then TokenColumn
      else otherwise)"

definition classifyANTLRToken ::
  "CqlLexer \<Rightarrow> HoverTables \<Rightarrow> AntlrToken \<Rightarrow> string \<Rightarrow> string list option
     \<Rightarrow> string list option \<Rightarrow> string list option \<Rightarrow> panic + TokenType" where
  "classifyANTLRToken lx hv tok input partitionKeys clusteringKeys columns =
     (let tokenType = tk_TokenType tok; text = tk_Text tok; lowerText = ToLower text in
      if tk_Channel tok = TokenHiddenChannel then
        (if HasPrefix text ''--'' \<or> HasPrefix text ''//'' \<or> HasPrefix text ''/*''
         then Inr TokenComment else Inr TokenIdentifier)
      else if tokenType \<in> set [LR_BRACKET lx, RR_BRACKET lx, LC_BRACKET lx, RC_BRACKET lx,
                                 LS_BRACKET lx, RS_BRACKET lx, COMMA lx, SEMI lx, COLON lx, DOT lx]
      then Inr TokenPunctuation
      else if tokenType \<in> set [STAR lx, DIVIDE lx, MODULE lx, PLUS lx, MINUS lx, MINUSMINUS lx,
                                 OPERATOR_EQ lx, OPERATOR_LT lx, OPERATOR_GT lx, OPERATOR_LTE lx,
                                 OPERATOR_GTE lx, OPERATOR_NEQ lx]
      then Inr TokenOperator
      else if tokenType = STRING_LITERAL lx \<or> tokenType = CODE_BLOCK lx then Inr TokenString
      else if tokenType \<in> set [DECIMAL_LITERAL lx, FLOAT_LITERAL lx, HEXADECIMAL_LITERAL lx,
                                 REAL_LITERAL lx]
      then Inr TokenNumber
      else if tokenType = QMARK lx then Inr TokenPlaceholder
      else if tokenType = UUID lx then Inr TokenIdentifier
      else if tokenType = DURATION_LITERAL lx then Inr TokenNumber
      else if tokenType \<in> set [COMMENT_INPUT lx, LINE_COMMENT lx, SPEC_MYSQL_COMMENT lx]
      then Inr TokenComment
      else if tokenType = OBJECT_NAME lx
      then Inr (semantic_or partitionKeys clusteringKeys columns lowerText TokenIdentifier)
      else
        then_do (slice_from input (tk_Stop tok + 1)) (\<lambda>rest.
          let afterToken = TrimSpace rest in
          if length afterToken > 0 \<and> afterToken ! 0 = CHR ''(''
          then (if IsFunction hv lowerText then Inr TokenFunction else Inr TokenFunction)
          else if IsType hv lowerText then Inr TokenType'
          else if IsKeyword hv lowerText
          then Inr (semantic_or partitionKeys clusteringKeys columns lowerText TokenKeyword)
          else if isKeywordToken lx tokenType
          then Inr (semantic_or partitionKeys clusteringKeys columns lowerText TokenIdentifier)
          else Inr TokenIdentifier))"

text \<open>
  The loop of \<^verbatim>\<open>Tokenize\<close> over the tokens that the lexer produced for the input
  (\<^verbatim>\<open>GetAllTokens\<close>); the lexer run itself is outside the model.
\<close>

fun tokenize_loop ::
  "CqlLexer \<Rightarrow> HoverTables \<Rightarrow> AntlrToken list \<Rightarrow> string \<Rightarrow> string list option
     \<Rightarrow> string list option \<Rightarrow> string list option \<Rightarrow> panic + Token list" where
  "tokenize_loop lx hv [] input pk ck cols = Inr []"
| "tokenize_loop lx hv (tok # toks) input pk ck cols =
     (if tk_TokenType tok = TokenEOF then tokenize_loop lx hv toks input pk ck cols
      else if tk_Channel tok = TokenHiddenChannel then tokenize_loop lx hv toks input pk ck cols
      else
        then_do (classifyANTLRToken lx hv tok input pk ck cols) (\<lambda>tokenType.
          then_do (tokenize_loop lx hv toks input pk ck cols) (\<lambda>result.
            Inr (\<lparr>Start = tk_Start tok, End = tk_Stop tok + 1, Text = tk_Text tok,
                   Type = tokenType\<rparr> # result))))"

definition Tokenize ::
  "CqlLexer \<Rightarrow> HoverTables \<Rightarrow> AntlrToken list \<Rightarrow> string \<Rightarrow> Context option
     \<Rightarrow> panic + Token list" where
  "Tokenize lx hv allTokens input ctx =
     (if input = [] then Inr []
      else
        (case ctx of
           None \<Rightarrow> tokenize_loop lx hv allTokens input None None None
         | Some c \<Rightarrow>
             tokenize_loop lx hv allTokens input (makeSet (PartitionKeys c))
               (makeSet (ClusteringKeys c)) (makeSet (Columns c))))"


section \<open>Reference notions for the statements\<close>

text \<open>
  These definitions are not translations of source functions: they are the notions in
  which the properties below are stated.
\<close>

subsection \<open>Edit distance\<close>

text \<open>
  The textbook recursion for the edit distance of two lists: delete, insert, or
  substitute (free when the heads agree); and the distance of two prefixes.
\<close>

fun edit_dist :: "'a list \<Rightarrow> 'a list \<Rightarrow> nat" where
  "edit_dist [] ys = length ys"
| "edit_dist (x # xs) [] = Suc (length xs)"
| "edit_dist (x # xs) (y # ys) =
     min (edit_dist xs (y # ys) + 1)
       (min (edit_dist (x # xs) ys + 1) (edit_dist xs ys + (if x = y then 0 else 1)))"

definition pre_dist :: "'a list \<Rightarrow> 'a list \<Rightarrow> nat \<Rightarrow> nat \<Rightarrow> nat" where
  "pre_dist s1 s2 i j = edit_dist (rev (take i s1)) (rev (take j s2))"


subsection \<open>ASCII strings\<close>

text \<open>
  The helpers of package \<^verbatim>\<open>strings\<close> and the regular expressions are modelled on bytes and
  do what the Go functions do on ASCII strings; the properties that go through them are
  stated for such strings. \<open>is_ascii s\<close>: every byte of \<open>s\<close> is below 128.
\<close>

definition is_ascii :: "string \<Rightarrow> bool" where
  "is_ascii s = list_all (\<lambda>c. \<not> digit7 c) s"


subsection \<open>Single-character edits\<close>

text \<open>
  \<open>one_edit xs ys\<close>: \<open>ys\<close> comes from \<open>xs\<close> by one insertion, one deletion or one
  substitution by a different element. \<open>edit_at p q\<close> names the place of the edit.
  \<open>close_to u kw\<close>: the keyword \<open>kw\<close> is one that the suggestion loop considers (longer
  than two bytes) and lies at edit distance one from \<open>u\<close>.
\<close>

fun one_edit :: "'a list \<Rightarrow> 'a list \<Rightarrow> bool" where
  "one_edit [] ys = (length ys = 1)"
| "one_edit (x # xs) [] = (xs = [])"
| "one_edit (x # xs) (y # ys) =
     ((x \<noteq> y \<and> xs = ys) \<or> ys = x # xs \<or> xs = y # ys \<or> (x = y \<and> one_edit xs ys))"

definition edit_at :: "'a list \<Rightarrow> 'a list \<Rightarrow> 'a list \<Rightarrow> 'a list \<Rightarrow> bool" where
  "edit_at p q xs ys =
     ((\<exists>b. xs = p @ q \<and> ys = p @ b # q) \<or> (\<exists>a. xs = p @ a # q \<and> ys = p @ q)
        \<or> (\<exists>a b. xs = p @ a # q \<and> ys = p @ b # q))"

definition close_to :: "string \<Rightarrow> string \<Rightarrow> bool" where
  "close_to u kw = (2 < length kw \<and> edit_dist u kw = 1)"


subsection \<open>Words of the query\<close>

text \<open>
  \<open>clean_word\<close> strips a word of the query as the last loop of
  \<^verbatim>\<open>suggestKeywordFromError\<close> does; a \<open>typo_word\<close> is a word that is not a keyword and for
  which \<^const>\<open>SuggestKeyword\<close> finds one.
\<close>

definition clean_word :: "string \<Rightarrow> string" where
  "clean_word w = TrimLeft (TrimRight w '';,()[]{}=<>!@#$%^&*'') ''(''"

definition typo_word :: "string \<Rightarrow> bool" where
  "typo_word w = (ToUpper (clean_word w) \<notin> set cqlKeywords \<and> SuggestKeyword (clean_word w) \<noteq> [])"


subsection \<open>Resolution and key restrictions\<close>

text \<open>
  \<open>restricted cols c\<close>: the column \<open>c\<close> is among the WHERE columns, compared without
  regard to case. \<open>resolve_keyspace\<close>: the keyspace of the statement, or the caller's
  default when the statement names none. \<open>missing_keys\<close>: the partition-key columns that
  the WHERE clause does not restrict. \<open>key_warnings\<close>: the findings that the key checks
  add for a statement on a resolved table.
\<close>

definition restricted :: "string list \<Rightarrow> string \<Rightarrow> bool" where
  "restricted whereColumns col = (ToLower col \<in> set (map ToLower whereColumns))"

definition resolve_keyspace :: "References \<Rightarrow> AnalyzeOptions \<Rightarrow> string" where
  "resolve_keyspace refs opts =
     (if ref_Keyspace refs = [] then opt_DefaultKeyspace opts else ref_Keyspace refs)"

definition missing_keys :: "References \<Rightarrow> Table \<Rightarrow> string list" where
  "missing_keys refs tbl =
     filter (\<lambda>pk. \<not> restricted (ref_WhereColumns refs) pk) (tbl_PartitionKey tbl)"

definition key_warnings :: "StatementType \<Rightarrow> References \<Rightarrow> Table \<Rightarrow> Warning list" where
  "key_warnings stmtType refs tbl =
     (if IsDML stmtType \<and> stmtType \<noteq> StatementInsert then
        (let missing = missing_keys refs tbl in
         if missing = [] then
           map clustering_warning
             (filter (restricted (ref_WhereColumns refs))
                (dropWhile (restricted (ref_WhereColumns refs)) (tbl_ClusteringKey tbl)))
         else
           [partition_warning missing
              (if length missing = length (tbl_PartitionKey tbl)
               then ''Add partition key columns to WHERE clause or use ALLOW FILTERING''
               else ''All partition key columns must be specified'')])
      else [])"


text \<open>A call of \<^verbatim>\<open>count\<close> with the given argument count and star flag.\<close>

definition count_call :: "int \<Rightarrow> bool \<Rightarrow> Position option \<Rightarrow> FunctionCall" where
  "count_call n star pos = \<lparr>fc_Name = ''count'', fc_ArgCount = n, fc_HasStar = star, fc_Position = pos\<rparr>"


subsection \<open>Maps and token types\<close>

text \<open>
  \<open>has_key m k\<close>: the map \<open>m\<close> is not \<^verbatim>\<open>nil\<close> and has an entry for \<open>k\<close>. \<open>early_types\<close>
  lists the token types that \<^const>\<open>classifyANTLRToken\<close> settles before it looks at what
  follows the token: punctuation, operators, literals, the placeholder, UUIDs, durations,
  comments and the plain identifier \<^verbatim>\<open>OBJECT_NAME\<close>.
\<close>

definition has_key :: "'v gomap \<Rightarrow> string \<Rightarrow> bool" where
  "has_key m k = (k \<in> set (map_keys m))"

definition early_types :: "CqlLexer \<Rightarrow> int list" where
  "early_types lx =
     [LR_BRACKET lx, RR_BRACKET lx, LC_BRACKET lx, RC_BRACKET lx, LS_BRACKET lx, RS_BRACKET lx,
      COMMA lx, SEMI lx, COLON lx, DOT lx,
      STAR lx, DIVIDE lx, MODULE lx, PLUS lx, MINUS lx, MINUSMINUS lx, OPERATOR_EQ lx,
      OPERATOR_LT lx, OPERATOR_GT lx, OPERATOR_LTE lx, OPERATOR_GTE lx, OPERATOR_NEQ lx,
      STRING_LITERAL lx, CODE_BLOCK lx,
      DECIMAL_LITERAL lx, FLOAT_LITERAL lx, HEXADECIMAL_LITERAL lx, REAL_LITERAL lx,
      QMARK lx, UUID lx, DURATION_LITERAL lx,
      COMMENT_INPUT lx, LINE_COMMENT lx, SPEC_MYSQL_COMMENT lx,
      OBJECT_NAME lx]"

text \<open>
  \<open>token_at tok input\<close>: the text of the token is not empty and stands in the input at
  the bytes from \<^verbatim>\<open>Start\<close> to \<^verbatim>\<open>Stop\<close>, both included (the positions that the lexer gives
  are counted in runes, which are the bytes of an ASCII input). \<open>followed_by_paren\<close>: what
  comes in the input after the text of the token is, white space apart, an opening
  parenthesis.
\<close>

definition token_at :: "AntlrToken \<Rightarrow> string \<Rightarrow> bool" where
  "token_at tok input =
     (tk_Text tok \<noteq> [] \<and> 0 \<le> tk_Start tok \<and>
      tk_Stop tok + 1 = tk_Start tok + int (length (tk_Text tok)) \<and>
      take (length (tk_Text tok)) (drop (nat (tk_Start tok)) input) = tk_Text tok)"

definition followed_by_paren :: "AntlrToken \<Rightarrow> string \<Rightarrow> bool" where
  "followed_by_paren tok input =
     (token_at tok input \<and>
      take 1 (dropWhile is_space (drop (nat (tk_Start tok) + length (tk_Text tok)) input)) = ''('')"


subsection \<open>Example values\<close>

text \<open>
  The schema of the examples: keyspace \<^verbatim>\<open>ks\<close> with the table \<^verbatim>\<open>users\<close>, columns \<^verbatim>\<open>id uuid\<close>
  (the partition key) and \<^verbatim>\<open>name text\<close>. \<open>select_where ks tbl cols\<close> is the reference
  set that the extraction yields for \<^verbatim>\<open>SELECT * FROM ks.tbl WHERE ...\<close> with conditions on
  the columns \<open>cols\<close>.
\<close>


definition users_table :: Table where
  "users_table =
     \<lparr>tbl_Name = ''users'', tbl_Keyspace = ''ks'',
      tbl_Columns = Some
        [(''id'', Some \<lparr>col_Name = ''id'', col_Type = ''uuid'', col_IsStatic = False,
                         col_IsPartitionKey = True, col_IsClusteringKey = False, col_Position = 0\<rparr>),
         (''name'', Some \<lparr>col_Name = ''name'', col_Type = ''text'', col_IsStatic = False,
                           col_IsPartitionKey = False, col_IsClusteringKey = False, col_Position = 0\<rparr>)],
      tbl_ColumnOrder = [''id'', ''name''], tbl_PartitionKey = [''id''], tbl_ClusteringKey = []\<rparr>"

definition users_keyspace :: Keyspace where
  "users_keyspace = \<lparr>ks_Name = ''ks'', ks_Tables = Some [(''users'', Some users_table)]\<rparr>"

definition users_schema :: Schema where
  "users_schema = \<lparr>Keyspaces = Some [(''ks'', Some users_keyspace)]\<rparr>"

definition users_options :: AnalyzeOptions where
  "users_options = DefaultOptions\<lparr>opt_Schema := Some users_schema\<rparr>"

definition select_where :: "string \<Rightarrow> string \<Rightarrow> string list \<Rightarrow> References" where
  "select_where ks tbl cols =
     \<lparr>ref_Keyspace = ks, ref_Table = tbl, ref_Columns = cols, ref_SelectColumns = [''*''],
      ref_WhereColumns = cols, ref_UpdateColumns = [], ref_InsertColumns = [],
      ref_OrderByColumns = [], ref_Functions = [], ref_FunctionCalls = [],
      ref_HasAllowFiltering = False, ref_Limit = - 1\<rparr>"

text \<open>
  A table with the partition key \<^verbatim>\<open>p\<close> and the clustering keys \<^verbatim>\<open>(a, b, c)\<close>.
\<close>

definition series_table :: Table where
  "series_table =
     \<lparr>tbl_Name = ''series'', tbl_Keyspace = ''ks'',
      tbl_Columns = Some
        (map (\<lambda>(n, pk, ck, pos).
                (n, Some \<lparr>col_Name = n, col_Type = ''int'', col_IsStatic = False,
                           col_IsPartitionKey = pk, col_IsClusteringKey = ck, col_Position = pos\<rparr>))
           [(''p'', True, False, 0), (''a'', False, True, 1), (''b'', False, True, 2),
            (''c'', False, True, 3)]),
      tbl_ColumnOrder = [''p'', ''a'', ''b'', ''c''], tbl_PartitionKey = [''p''],
      tbl_ClusteringKey = [''a'', ''b'', ''c'']\<rparr>"

definition series_keyspace :: Keyspace where
  "series_keyspace = \<lparr>ks_Name = ''ks'', ks_Tables = Some [(''series'', Some series_table)]\<rparr>"

definition series_schema :: Schema where
  "series_schema = \<lparr>Keyspaces = Some [(''ks'', Some series_keyspace)]\<rparr>"

definition series_options :: AnalyzeOptions where
  "series_options = DefaultOptions\<lparr>opt_Schema := Some series_schema\<rparr>"

text \<open>
  A catalogue with entries that the generator adds to every catalogue (its lists of
  aggregate and special functions), among them \<^verbatim>\<open>count\<close>.
\<close>

definition known_functions :: "FunctionDef list" where
  "known_functions =
     map (\<lambda>(n, r, ps, agg). \<lparr>fd_Name = n, fd_ReturnType = r, fd_Params = ps, fd_Pure = True,
                               fd_Aggregate = agg\<rparr>)
       [(''count'', ''bigint'', [''any''], True), (''sum'', ''number'', [''number''], True),
        (''avg'', ''number'', [''number''], True), (''min'', ''any'', [''any''], True),
        (''max'', ''any'', [''any''], True), (''token'', ''bigint'', [''partition_key''], False),
        (''writetime'', ''bigint'', [''column''], False), (''ttl'', ''int'', [''column''], False),
        (''cast'', ''target_type'', [''any'', ''type''], False)]"


text \<open>
  A numbering of the token types, for the examples only, and the token \<^verbatim>\<open>now\<close> of
  \<^verbatim>\<open>SELECT now() FROM t\<close> (bytes 7 to 9 of the input, on the default channel), of the given
  token type. In the grammar the name of a function in a call is a plain identifier,
  \<^verbatim>\<open>OBJECT_NAME\<close>; only \<^verbatim>\<open>uuid\<close>, \<^verbatim>\<open>writetime\<close>, \<^verbatim>\<open>ttl\<close> and \<^verbatim>\<open>token\<close> are keyword tokens there.
\<close>

definition sample_lexer :: CqlLexer where
  "sample_lexer =
     \<lparr>LR_BRACKET = 1, RR_BRACKET = 2, LC_BRACKET = 3, RC_BRACKET = 4, LS_BRACKET = 5,
      RS_BRACKET = 6, COMMA = 7, SEMI = 8, COLON = 9, DOT = 10, STAR = 11, DIVIDE = 12,
      MODULE = 13, PLUS = 14, MINUS = 15, MINUSMINUS = 16, OPERATOR_EQ = 17, OPERATOR_LT = 18,
      OPERATOR_GT = 19, OPERATOR_LTE = 20, OPERATOR_GTE = 21, OPERATOR_NEQ = 22,
      STRING_LITERAL = 301, CODE_BLOCK = 302, DECIMAL_LITERAL = 303, FLOAT_LITERAL = 304,
      HEXADECIMAL_LITERAL = 305, REAL_LITERAL = 306, QMARK = 307, UUID = 308,
      DURATION_LITERAL = 309, COMMENT_INPUT = 310, LINE_COMMENT = 311,
      SPEC_MYSQL_COMMENT = 312, OBJECT_NAME = 313, K_ADD = 24, K_VECTOR_SEARCH_INDEXING = 300\<rparr>"

definition now_token :: "int \<Rightarrow> AntlrToken" where
  "now_token ty =
     \<lparr>tk_TokenType = ty, tk_Text = ''now'', tk_Channel = 0, tk_Start = 7, tk_Stop = 9\<rparr>"

section \<open>Properties of the edit distance\<close>

text \<open>
  The reference for \<^const>\<open>levenshteinDistance\<close> is the textbook recursion on two lists:
  delete, insert, or substitute (free when the heads agree). The two-row loop is shown
  to compute it on the reversed strings, row by row, and the metric laws are proved for
  the recursion.
\<close>

lemma min3_min: "min3 a b c = min a (min b c)"
  by auto

lemma edit_dist_Nil2 [simp]: "edit_dist xs [] = length xs"
  by (cases xs) auto

lemma edit_dist_sym: "edit_dist xs ys = edit_dist ys xs"
  by (induction xs ys rule: edit_dist.induct) (auto simp: min.commute min.left_commute)

lemma edit_dist_refl [simp]: "edit_dist xs xs = 0"
  by (induction xs) auto

lemma edit_dist_zero: "edit_dist xs ys = 0 \<Longrightarrow> xs = ys"
  by (induction xs ys rule: edit_dist.induct) (auto split: if_splits simp: min_def)

lemma edit_dist_del_left: "edit_dist (x # xs) ys \<le> edit_dist xs ys + 1"
  by (cases ys) auto

lemma edit_dist_ins_right: "edit_dist xs (y # ys) \<le> edit_dist xs ys + 1"
  by (cases xs) auto

lemma edit_dist_drop_right: "edit_dist xs ys \<le> edit_dist xs (y # ys) + 1"
proof (induction xs)
  case Nil
  then show ?case by simp
next
  case (Cons x xs)
  have a: "edit_dist (x # xs) ys \<le> edit_dist xs ys + 1" by (rule edit_dist_del_left)
  show ?case using Cons a by (auto simp: min_def)
qed

lemma edit_dist_length_le: "length ys \<le> edit_dist xs ys + length xs"
proof (induction xs ys rule: edit_dist.induct)
  case (3 x xs y ys)
  then show ?case by (auto simp: min_def)
qed auto

lemma edit_dist_le_sum: "edit_dist xs ys \<le> length xs + length ys"
proof (induction xs ys rule: edit_dist.induct)
  case (3 x xs y ys)
  then show ?case by (auto simp: min_def)
qed auto

lemma edit_dist_subst:
  assumes "\<And>zs. edit_dist zs cs \<le> edit_dist zs bs + k"
  shows "edit_dist as (y # cs) \<le> edit_dist as (x # bs) + k + (if x = y then 0 else 1)"
proof (induction as)
  case Nil
  show ?case using assms[of "[]"] by simp
next
  case (Cons e as)
  let ?c = "\<lambda>u v. if u = v then 0 else (1::nat)"
  have tri: "?c e y \<le> ?c e x + ?c x y" by auto
  have s1: "edit_dist (e # as) (y # cs) \<le> edit_dist as (y # cs) + 1" by simp
  have s2: "edit_dist (e # as) (y # cs) \<le> edit_dist (e # as) cs + 1" by simp
  have s3: "edit_dist (e # as) (y # cs) \<le> edit_dist as cs + ?c e y" by simp
  have m: "edit_dist (e # as) (x # bs) = edit_dist as (x # bs) + 1
         \<or> edit_dist (e # as) (x # bs) = edit_dist (e # as) bs + 1
         \<or> edit_dist (e # as) (x # bs) = edit_dist as bs + ?c e x"
    by (auto simp: min_def)
  from m show ?case
  proof (elim disjE)
    assume h: "edit_dist (e # as) (x # bs) = edit_dist as (x # bs) + 1"
    show ?thesis using s1 Cons.IH h by linarith
  next
    assume h: "edit_dist (e # as) (x # bs) = edit_dist (e # as) bs + 1"
    show ?thesis using s2 assms[of "e # as"] h by linarith
  next
    assume h: "edit_dist (e # as) (x # bs) = edit_dist as bs + ?c e x"
    show ?thesis using s3 assms[of as] h tri by linarith
  qed
qed

lemma edit_dist_triangle: "edit_dist as cs \<le> edit_dist as bs + edit_dist bs cs"
proof (induction bs cs arbitrary: as rule: edit_dist.induct)
  case (1 ys)
  show ?case using edit_dist_le_sum[of as ys] by simp
next
  case (2 x xs)
  show ?case using edit_dist_length_le[where xs = "x # xs" and ys = as] edit_dist_sym[of as "x # xs"] by simp
next
  case (3 x xs y ys)
  let ?c = "if x = y then 0 else (1::nat)"
  have m: "edit_dist (x # xs) (y # ys) = edit_dist xs (y # ys) + 1
         \<or> edit_dist (x # xs) (y # ys) = edit_dist (x # xs) ys + 1
         \<or> edit_dist (x # xs) (y # ys) = edit_dist xs ys + ?c"
    by (auto simp: min_def)
  from m show ?case
  proof (elim disjE)
    assume h: "edit_dist (x # xs) (y # ys) = edit_dist xs (y # ys) + 1"
    have "edit_dist as (y # ys) \<le> edit_dist as xs + edit_dist xs (y # ys)" by (rule "3.IH"(1))
    moreover have "edit_dist as xs \<le> edit_dist as (x # xs) + 1" by (rule edit_dist_drop_right)
    ultimately show ?thesis using h by linarith
  next
    assume h: "edit_dist (x # xs) (y # ys) = edit_dist (x # xs) ys + 1"
    have "edit_dist as ys \<le> edit_dist as (x # xs) + edit_dist (x # xs) ys" by (rule "3.IH"(2))
    moreover have "edit_dist as (y # ys) \<le> edit_dist as ys + 1" by (rule edit_dist_ins_right)
    ultimately show ?thesis using h by linarith
  next
    assume h: "edit_dist (x # xs) (y # ys) = edit_dist xs ys + ?c"
    have "\<And>zs. edit_dist zs ys \<le> edit_dist zs xs + edit_dist xs ys" by (rule "3.IH"(3))
    from edit_dist_subst[OF this, of as y x] show ?thesis using h by linarith
  qed
qed


lemma pre_dist_0 [simp]: "j \<le> length s2 \<Longrightarrow> pre_dist s1 s2 0 j = j"
  by (simp add: pre_dist_def)

lemma pre_dist_0' [simp]: "i \<le> length s1 \<Longrightarrow> pre_dist s1 s2 i 0 = i"
  by (simp add: pre_dist_def)

lemma pre_dist_Suc:
  assumes "i < length s1" "j < length s2"
  shows "pre_dist s1 s2 (Suc i) (Suc j) =
           min3 (pre_dist s1 s2 i (Suc j) + 1) (pre_dist s1 s2 (Suc i) j + 1)
             (pre_dist s1 s2 i j + (if s1 ! i = s2 ! j then 0 else 1))"
  using assms by (simp add: pre_dist_def take_Suc_conv_app_nth min3_min del: min3.simps)

lemma inner_loop_correct:
  assumes "length prv = Suc (length s2)" "length cur = Suc (length s2)"
    and "i < length s1"
    and "\<forall>k \<le> length s2. prv ! k = pre_dist s1 s2 i k"
    and "1 \<le> j" 
    and "\<forall>k < j. cur ! k = pre_dist s1 s2 (Suc i) k"
  shows "length (inner_loop (s1 ! i) s2 prv cur j) = Suc (length s2) \<and>
         (\<forall>k \<le> length s2. inner_loop (s1 ! i) s2 prv cur j ! k = pre_dist s1 s2 (Suc i) k)"
  using assms
proof (induction "s1 ! i" s2 prv cur j rule: inner_loop.induct)
  case (1 s2 prv cur j)
  show ?case
  proof (cases "j \<le> length s2")
    case False
    then show ?thesis using "1.prems" by (simp add: inner_loop.simps)
  next
    case True
    obtain j' where j: "j = Suc j'" using "1.prems"(5) by (cases j) auto
    let ?v = "min3 (prv ! j + 1) (cur ! (j - 1) + 1)
                (prv ! (j - 1) + (if s1 ! i = s2 ! (j - 1) then 0 else 1))"
    have v: "?v = pre_dist s1 s2 (Suc i) j"
      using "1.prems" True j by (simp add: pre_dist_Suc del: min3.simps)
    have inv: "\<forall>k < j + 1. cur[j := ?v] ! k = pre_dist s1 s2 (Suc i) k"
    proof (intro allI impI)
      fix k assume "k < j + 1"
      then show "cur[j := ?v] ! k = pre_dist s1 s2 (Suc i) k"
        using v "1.prems"(2,6) True by (cases "k = j") (auto simp del: min3.simps)
    qed
    have "length (inner_loop (s1 ! i) s2 prv (cur[j := ?v]) (j + 1)) = Suc (length s2) \<and>
         (\<forall>k \<le> length s2. inner_loop (s1 ! i) s2 prv (cur[j := ?v]) (j + 1) ! k = pre_dist s1 s2 (Suc i) k)"
    proof (rule "1.hyps"[OF True refl])
      show "length prv = Suc (length s2)" by (rule "1.prems"(1))
      show "length (cur[j := ?v]) = Suc (length s2)" using "1.prems"(2) by simp
      show "i < length s1" by (rule "1.prems"(3))
      show "\<forall>k \<le> length s2. prv ! k = pre_dist s1 s2 i k" by (rule "1.prems"(4))
      show "1 \<le> j + 1" by simp
      show "\<forall>k < j + 1. cur[j := ?v] ! k = pre_dist s1 s2 (Suc i) k" by (rule inv)
    qed
    then show ?thesis using True by (subst inner_loop.simps, subst inner_loop.simps) (simp add: Let_def del: min3.simps)
  qed
qed


lemma outer_loop_correct:
  assumes "length prv = Suc (length s2)" "length cur = Suc (length s2)"
    and "1 \<le> i" "i \<le> Suc (length s1)"
    and "\<forall>k \<le> length s2. prv ! k = pre_dist s1 s2 (i - 1) k"
  shows "\<forall>k \<le> length s2. outer_loop s1 s2 prv cur i ! k = pre_dist s1 s2 (length s1) k"
  using assms
proof (induction s1 s2 prv cur i rule: outer_loop.induct)
  case (1 s1 s2 prv cur i)
  show ?case
  proof (cases "i \<le> length s1")
    case False
    then have "i - 1 = length s1" using "1.prems" by simp
    then show ?thesis using False "1.prems" by (simp add: outer_loop.simps)
  next
    case True
    obtain i' where i: "i = Suc i'" using "1.prems"(3) by (cases i) auto
    let ?row = "inner_loop (s1 ! (i - 1)) s2 prv (cur[0 := i]) 1"
    have row: "length ?row = Suc (length s2) \<and>
               (\<forall>k \<le> length s2. ?row ! k = pre_dist s1 s2 (Suc i') k)"
      unfolding i diff_Suc_1
    proof (rule inner_loop_correct)
      show "length prv = Suc (length s2)" by (rule "1.prems"(1))
      show "length (cur[0 := Suc i']) = Suc (length s2)" using "1.prems"(2) by simp
      show "i' < length s1" using True i by simp
      show "\<forall>k \<le> length s2. prv ! k = pre_dist s1 s2 i' k" using "1.prems"(5) i by simp
      show "1 \<le> (1::nat)" by simp
      show "\<forall>k < 1. cur[0 := Suc i'] ! k = pre_dist s1 s2 (Suc i') k"
        using True i "1.prems"(2) by simp
    qed
    have "\<forall>k \<le> length s2. outer_loop s1 s2 ?row prv (i + 1) ! k = pre_dist s1 s2 (length s1) k"
    proof (rule "1.IH"[OF True])
      show "length ?row = Suc (length s2)" using row by simp
      show "length prv = Suc (length s2)" by (rule "1.prems"(1))
      show "1 \<le> i + 1" by simp
      show "i + 1 \<le> Suc (length s1)" using True by simp
      show "\<forall>k \<le> length s2. ?row ! k = pre_dist s1 s2 (i + 1 - 1) k" using row i by simp
    qed
    then show ?thesis using True by (subst outer_loop.simps) simp
  qed
qed

lemma levenshteinDistance_edit_dist:
  "levenshteinDistance s1 s2 = edit_dist (rev s1) (rev s2)"
proof -
  have "outer_loop s1 s2 [0 ..< length s2 + 1] (replicate (length s2 + 1) 0) 1 ! length s2
          = pre_dist s1 s2 (length s1) (length s2)"
  proof -
    have "\<forall>k \<le> length s2. outer_loop s1 s2 [0 ..< length s2 + 1] (replicate (length s2 + 1) 0) 1 ! k
          = pre_dist s1 s2 (length s1) k"
    proof (rule outer_loop_correct)
      show "\<forall>k \<le> length s2. [0 ..< length s2 + 1] ! k = pre_dist s1 s2 (1 - 1) k"
        by (auto simp: less_Suc_eq_le simp del: upt_Suc)
    qed simp_all
    then show ?thesis by simp
  qed
  then show ?thesis
    by (simp add: levenshteinDistance_def pre_dist_def)
qed


lemma lev_FORM_FROM: "levenshteinDistance ''FORM'' ''FROM'' = 2"
  by code_simp

lemma lev_kitten_sitting: "levenshteinDistance ''kitten'' ''sitting'' = 3"
  by code_simp

text \<open>
  Claim C5. \<^const>\<open>levenshteinDistance\<close> is symmetric, is zero exactly when its arguments
  are equal, and satisfies the triangle inequality; the distance from FORM to FROM is 2
  and the distance from kitten to sitting is 3.
\<close>

theorem levenshteinDistance_metric:
  "levenshteinDistance a b = levenshteinDistance b a \<and>
   (levenshteinDistance a b = 0 \<longleftrightarrow> a = b) \<and>
   levenshteinDistance a c \<le> levenshteinDistance a b + levenshteinDistance b c \<and>
   levenshteinDistance ''FORM'' ''FROM'' = 2 \<and>
   levenshteinDistance ''kitten'' ''sitting'' = 3"
  using edit_dist_sym[of "rev a" "rev b"] edit_dist_zero[of "rev a" "rev b"]
    edit_dist_triangle[of "rev a" "rev c" "rev b"] lev_FORM_FROM lev_kitten_sitting
  by (auto simp: levenshteinDistance_edit_dist)

section \<open>The edit distance read from either end\<close>

text \<open>
  The loops of the program compare the last bytes of two prefixes, the reference recursion
  the first elements of two lists. The recursion obeys the same equation at the far end,
  so the distance of two lists is the distance of their reversals, and both distance
  functions of the program compute \<^const>\<open>edit_dist\<close> of their arguments.
\<close>

lemma edit_dist_single:
  "edit_dist [a] ys = (if a \<in> set ys then length ys - 1 else max 1 (length ys))"
proof (induction ys)
  case Nil
  show ?case by simp
next
  case (Cons y ys)
  have "a \<in> set ys \<Longrightarrow> 0 < length ys" by (cases ys) auto
  then show ?case using Cons by (auto simp: min_def max_def)
qed

lemma edit_dist_snoc_Nil:
  "edit_dist [a] (ys @ [b]) =
     min (edit_dist [] (ys @ [b]) + 1)
       (min (edit_dist [a] ys + 1) (edit_dist [] ys + (if a = b then 0 else 1)))"
proof -
  have "a \<in> set ys \<Longrightarrow> 0 < length ys" by (cases ys) auto
  then show ?thesis by (auto simp: edit_dist_single min_def max_def)
qed


lemma min_grid_commute:
  fixes A B C D E F G H I p q :: nat
  shows "min (min (A + 1) (min (B + 1) (C + p)) + 1)
        (min (min (D + 1) (min (E + 1) (F + p)) + 1) (min (G + 1) (min (H + 1) (I + p)) + q))
      = min (min (A + 1) (min (D + 1) (G + q)) + 1)
        (min (min (B + 1) (min (E + 1) (H + q)) + 1) (min (C + 1) (min (F + 1) (I + q)) + p))"
proof -
  have d: "min x y + z = min (x + z) (y + z)" for x y z :: nat by simp
  show ?thesis
    unfolding d
    by (simp only: min.assoc min.commute min.left_commute add.assoc add.commute add.left_commute)
qed


lemma edit_dist_snoc:
  "edit_dist (xs @ [a]) (ys @ [b]) =
     min (edit_dist xs (ys @ [b]) + 1)
       (min (edit_dist (xs @ [a]) ys + 1) (edit_dist xs ys + (if a = b then 0 else 1)))"
proof (induction xs ys arbitrary: a b rule: edit_dist.induct)
  case (1 ys)
  show ?case using edit_dist_snoc_Nil[of a ys b] by simp
next
  case (2 x xs)
  have s: "edit_dist [b] (x # xs @ [a]) =
     min (edit_dist [] (x # xs @ [a]) + 1)
       (min (edit_dist [b] (x # xs) + 1) (edit_dist [] (x # xs) + (if b = a then 0 else 1)))"
    using edit_dist_snoc_Nil[of b "x # xs" a] by simp
  have e1: "edit_dist ((x # xs) @ [a]) ([] @ [b]) = edit_dist [b] (x # xs @ [a])"
    using edit_dist_sym[of "x # xs @ [a]" "[b]"] by simp
  have e2: "edit_dist (x # xs) ([] @ [b]) = edit_dist [b] (x # xs)"
    using edit_dist_sym[of "x # xs" "[b]"] by simp
  have e3: "edit_dist ((x # xs) @ [a]) [] = edit_dist [] (x # xs @ [a])"
    by simp
  have e4: "edit_dist (x # xs) [] = edit_dist [] (x # xs)" by simp
  have c: "(if a = b then 0 else (1::nat)) = (if b = a then 0 else 1)" by auto
  show ?case unfolding e1 e2 e3 e4 s c
    by (simp only: min.assoc min.commute min.left_commute)
next
  case (3 x xs y ys)
  define A where "A = edit_dist xs (y # ys @ [b])"
  define B where "B = edit_dist (xs @ [a]) (y # ys)"
  define C where "C = edit_dist xs (y # ys)"
  define D where "D = edit_dist (x # xs) (ys @ [b])"
  define E where "E = edit_dist (x # xs @ [a]) ys"
  define F where "F = edit_dist (x # xs) ys"
  define G where "G = edit_dist xs (ys @ [b])"
  define H where "H = edit_dist (xs @ [a]) ys"
  define I where "I = edit_dist xs ys"
  define p where "p = (if a = b then 0 else (1::nat))"
  define q where "q = (if x = y then 0 else (1::nat))"
  have 1: "edit_dist (xs @ [a]) (y # ys @ [b]) = min (A + 1) (min (B + 1) (C + p))"
    using "3.IH"(1)[of a b] unfolding A_def B_def C_def p_def by simp
  have 2: "edit_dist (x # xs @ [a]) (ys @ [b]) = min (D + 1) (min (E + 1) (F + p))"
    using "3.IH"(2)[of a b] unfolding D_def E_def F_def p_def by simp
  have 3: "edit_dist (xs @ [a]) (ys @ [b]) = min (G + 1) (min (H + 1) (I + p))"
    using "3.IH"(3)[of a b] unfolding G_def H_def I_def p_def by simp
  have l: "edit_dist ((x # xs) @ [a]) ((y # ys) @ [b]) =
      min (min (A + 1) (min (B + 1) (C + p)) + 1)
        (min (min (D + 1) (min (E + 1) (F + p)) + 1) (min (G + 1) (min (H + 1) (I + p)) + q))"
    unfolding 1[symmetric] 2[symmetric] 3[symmetric] q_def by simp
  have 4: "edit_dist (x # xs) (y # ys @ [b]) = min (A + 1) (min (D + 1) (G + q))"
    unfolding A_def D_def G_def q_def by simp
  have 5: "edit_dist (x # xs @ [a]) (y # ys) = min (B + 1) (min (E + 1) (H + q))"
    unfolding B_def E_def H_def q_def by simp
  have 6: "edit_dist (x # xs) (y # ys) = min (C + 1) (min (F + 1) (I + q))"
    unfolding C_def F_def I_def q_def by simp
  have r: "min (edit_dist (x # xs) ((y # ys) @ [b]) + 1)
       (min (edit_dist ((x # xs) @ [a]) (y # ys) + 1) (edit_dist (x # xs) (y # ys) + p)) =
      min (min (A + 1) (min (D + 1) (G + q)) + 1)
        (min (min (B + 1) (min (E + 1) (H + q)) + 1) (min (C + 1) (min (F + 1) (I + q)) + p))"
    unfolding 4[symmetric] 5[symmetric] 6[symmetric] by simp
  show ?case using l r min_grid_commute[of A B C p D E F G H I q] unfolding p_def by (simp only:)
qed

lemma edit_dist_rev: "edit_dist (rev xs) (rev ys) = edit_dist xs ys"
proof (induction xs ys rule: edit_dist.induct)
  case (3 x xs y ys)
  then show ?case using edit_dist_snoc[of "rev xs" x "rev ys" y] by simp
qed simp_all

lemma levenshteinDistance_eq: "levenshteinDistance s1 s2 = edit_dist s1 s2"
  by (simp add: levenshteinDistance_edit_dist edit_dist_rev)

lemma close_to_lev: "close_to u kw = (2 < length kw \<and> levenshteinDistance u kw = 1)"
  by (simp add: close_to_def levenshteinDistance_eq)


section \<open>Properties of SuggestKeyword\<close>

lemma edit_dist_append_same: "edit_dist (p @ xs) (p @ ys) \<le> edit_dist xs ys"
proof (induction p)
  case Nil
  show ?case by simp
next
  case (Cons a p)
  have "edit_dist (a # p @ xs) (a # p @ ys) \<le> edit_dist (p @ xs) (p @ ys)" by simp
  with Cons show ?case by simp
qed

lemma edit_at_Cons: "edit_at p q xs ys \<Longrightarrow> edit_at (x # p) q (x # xs) (x # ys)"
  unfolding edit_at_def by simp

lemma one_edit_decomp: "one_edit xs ys \<Longrightarrow> \<exists>p q. edit_at p q xs ys"
proof (induction xs ys rule: one_edit.induct)
  case (1 ys)
  then obtain b where "ys = [b]" by (cases ys) auto
  then have "edit_at [] [] [] ys" unfolding edit_at_def by simp
  then show ?case by (intro exI)
next
  case (2 x xs)
  then have "edit_at [] [] (x # xs) []" unfolding edit_at_def by simp
  then show ?case by (intro exI)
next
  case (3 x xs y ys)
  from "3.prems" have "(x \<noteq> y \<and> xs = ys) \<or> ys = x # xs \<or> xs = y # ys \<or> (x = y \<and> one_edit xs ys)"
    by simp
  then show ?case
  proof (elim disjE conjE)
    assume "x \<noteq> y" "xs = ys"
    then have "edit_at [] xs (x # xs) (y # ys)" unfolding edit_at_def by simp
    then show ?thesis by (intro exI)
  next
    assume "ys = x # xs"
    then have "edit_at [] (x # xs) (x # xs) (y # ys)" unfolding edit_at_def by simp
    then show ?thesis by (intro exI)
  next
    assume "xs = y # ys"
    then have "edit_at [] (y # ys) (x # xs) (y # ys)" unfolding edit_at_def by simp
    then show ?thesis by (intro exI)
  next
    assume r: "x = y" "one_edit xs ys"
    from "3.IH"[OF r(2)] obtain p q where "edit_at p q xs ys" by (elim exE)
    then have "edit_at (x # p) q (x # xs) (y # ys)" using r(1) edit_at_Cons by fastforce
    then show ?thesis by (intro exI)
  qed
qed

lemma edit_dist_rev_one_edit:
  assumes "one_edit xs ys"
  shows "edit_dist (rev xs) (rev ys) \<le> 1"
proof -
  from one_edit_decomp[OF assms] obtain p q where "edit_at p q xs ys" by (elim exE)
  then have h: "(\<exists>b. xs = p @ q \<and> ys = p @ b # q) \<or> (\<exists>a. xs = p @ a # q \<and> ys = p @ q)
        \<or> (\<exists>a b. xs = p @ a # q \<and> ys = p @ b # q)" unfolding edit_at_def .
  have i: "\<And>b. edit_dist (rev p) (b # rev p) \<le> 1"
    using edit_dist_ins_right[of "rev p" _ "rev p"] by simp
  have d: "\<And>a. edit_dist (a # rev p) (rev p) \<le> 1"
    using edit_dist_del_left[of _ "rev p" "rev p"] by simp
  have s: "\<And>a b. edit_dist (a # rev p) (b # rev p) \<le> 1" by simp
  from h show ?thesis
  proof (elim disjE conjE exE)
    fix b assume "xs = p @ q" "ys = p @ b # q"
    then show ?thesis
      using edit_dist_append_same[of "rev q" "rev p" "b # rev p"] i[of b] by simp
  next
    fix a assume "xs = p @ a # q" "ys = p @ q"
    then show ?thesis
      using edit_dist_append_same[of "rev q" "a # rev p" "rev p"] d[of a] by simp
  next
    fix a b assume "xs = p @ a # q" "ys = p @ b # q"
    then show ?thesis
      using edit_dist_append_same[of "rev q" "a # rev p" "b # rev p"] s[of a b] by simp
  qed
qed

lemma lev_one_edit:
  assumes "one_edit k u" "u \<noteq> k"
  shows "levenshteinDistance u k = 1"
proof -
  have "edit_dist (rev k) (rev u) \<le> 1" by (rule edit_dist_rev_one_edit[OF assms(1)])
  then have "levenshteinDistance u k \<le> 1"
    by (simp add: levenshteinDistance_edit_dist edit_dist_sym[of "rev u" "rev k"])
  moreover have "levenshteinDistance u k \<noteq> 0"
    using assms(2) edit_dist_zero[of "rev u" "rev k"] by (auto simp: levenshteinDistance_edit_dist)
  ultimately show ?thesis by linarith
qed

lemma lev_length_diff:
  "int (length kw) - int (length u) \<le> int (levenshteinDistance u kw)"
  "int (length u) - int (length kw) \<le> int (levenshteinDistance u kw)"
  using edit_dist_length_le[of "rev kw" "rev u"] edit_dist_length_le[of "rev u" "rev kw"]
    edit_dist_sym[of "rev u" "rev kw"]
  by (simp_all add: levenshteinDistance_edit_dist)

lemma exact_match_iff: "exact_match u kws \<longleftrightarrow> u \<in> set kws"
  by (induction kws) auto



lemma closest_loop_done:
  assumes "\<forall>kw \<in> set kws. levenshteinDistance u kw \<noteq> 0" "bd \<le> 1"
  shows "closest_loop u kws (bm, bd) = (bm, bd)"
  using assms by (induction kws) (auto simp: Let_def)



lemma closest_loop_first:
  assumes "\<forall>kw \<in> set kws. levenshteinDistance u kw \<noteq> 0" "1 < bd"
    and "find (close_to u) kws = Some k'"
  shows "closest_loop u kws (bm, bd) = (k', 1)"
  using assms
proof (induction kws arbitrary: bm bd)
  case Nil
  then show ?case by simp
next
  case (Cons kw kws)
  have nz: "\<forall>kw \<in> set kws. levenshteinDistance u kw \<noteq> 0" using Cons.prems(1) by simp
  show ?case
  proof (cases "close_to u kw")
    case True
    then have k': "k' = kw" using Cons.prems(3) by simp
    have d: "levenshteinDistance u kw = 1" and l: "2 < length kw"
      using True by (simp_all add: close_to_lev)
    have ld: "\<not> 2 < \<bar>int (length kw) - int (length u)\<bar>"
      using lev_length_diff[where kw = kw and u = u] d by linarith
    have "closest_loop u (kw # kws) (bm, bd) = closest_loop u kws (kw, 1)"
      using d l ld Cons.prems(2) by (simp add: Let_def maxDistance_def abs_if)
    then show ?thesis using closest_loop_done[OF nz, of 1 kw] k' by simp
  next
    case False
    then have f: "find (close_to u) kws = Some k'" using Cons.prems(3) by simp
    have dn: "levenshteinDistance u kw \<noteq> 0" using Cons.prems(1) by simp
    show ?thesis
    proof (cases "length kw \<le> 2")
      case True
      then show ?thesis using Cons.IH[OF nz Cons.prems(2) f] by simp
    next
      case l: False
      then have d2: "2 \<le> levenshteinDistance u kw" using False dn by (simp add: close_to_lev)
      show ?thesis
      proof (cases "levenshteinDistance u kw \<le> maxDistance \<and> levenshteinDistance u kw < bd")
        case True
        have "closest_loop u kws (kw, levenshteinDistance u kw) = (k', 1)"
          by (rule Cons.IH[OF nz _ f]) (use d2 in simp)
        then show ?thesis using True l Cons.IH[OF nz Cons.prems(2) f, of bm]
          by (simp add: Let_def)
      next
        case False
        then show ?thesis using l Cons.IH[OF nz Cons.prems(2) f, of bm]
          by (auto simp add: Let_def)
      qed
    qed
  qed
qed



lemma find_split_at:
  assumes "k \<in> set kws" "P k"
  shows "find P kws = Some (case find P (takeWhile (\<lambda>kw. kw \<noteq> k) kws) of Some k' \<Rightarrow> k' | None \<Rightarrow> k)"
  using assms by (induction kws) auto

text \<open>
  Claim C10. \<^const>\<open>SuggestKeyword\<close> returns the empty string for every input whose
  white-space-trimmed form is shorter than 4 bytes, also when the input is within distance
  2 of a keyword: the length cutoff is on the input itself. (Upper-casing keeps the
  length, so the test of the source on the trimmed, upper-cased input is this one.)
\<close>

theorem SuggestKeyword_short_input:
  "length (TrimSpace input) < 4 \<Longrightarrow> SuggestKeyword input = []"
  by (simp add: SuggestKeyword_def Let_def ToUpper_def)

lemma fro_near_FROM: "levenshteinDistance (ToUpper (TrimSpace ''  fro '')) ''FROM'' = 1"
  by code_simp

theorem SuggestKeyword_short_input_witness:
  "length (TrimSpace ''  fro '') < 4 \<and>
   levenshteinDistance (ToUpper (TrimSpace ''  fro '')) ''FROM'' \<le> 2 \<and>
   SuggestKeyword ''  fro '' = []"
  using SuggestKeyword_short_input[of "''  fro ''"] fro_near_FROM
  by (simp add: TrimSpace_def is_space_def)

text \<open>
  Claim C6, as amended. Let the input be an ASCII string, let \<open>k\<close> be a keyword of length
  at least 4 and let the input, once trimmed and upper-cased, be a single-character edit
  \<open>u\<close> of \<open>k\<close> that has at least 4 bytes and is not itself a keyword. Then
  \<^const>\<open>SuggestKeyword\<close> returns a keyword at edit distance one from \<open>u\<close>: the first such
  keyword of the table. That is \<open>k\<close> itself unless a keyword standing before \<open>k\<close> in the
  table is at distance one from \<open>u\<close> as well.
\<close>

theorem SuggestKeyword_single_edit:
  assumes "k \<in> set cqlKeywords" "4 \<le> length k"
    and "u = ToUpper (TrimSpace input)" "one_edit k u" "4 \<le> length u" "u \<notin> set cqlKeywords"
    and "is_ascii input"
  shows "SuggestKeyword input =
           (case find (close_to u) (takeWhile (\<lambda>kw. kw \<noteq> k) cqlKeywords) of
              Some k' \<Rightarrow> k' | None \<Rightarrow> k)"
proof -
  let ?r = "case find (close_to u) (takeWhile (\<lambda>kw. kw \<noteq> k) cqlKeywords) of
              Some k' \<Rightarrow> k' | None \<Rightarrow> k"
  have uk: "u \<noteq> k" using assms(1,6) by auto
  have ck: "close_to u k" using lev_one_edit[OF assms(4) uk] assms(2) by (simp add: close_to_lev)
  have f: "find (close_to u) cqlKeywords = Some ?r" by (rule find_split_at[where P = "close_to u", OF assms(1) ck])
  have nz: "\<forall>kw \<in> set cqlKeywords. levenshteinDistance u kw \<noteq> 0"
    using assms(6) edit_dist_zero[of "rev u"] by (auto simp: levenshteinDistance_edit_dist)
  have loop: "closest_loop u cqlKeywords ([], maxDistance + 1) = (?r, 1)"
    by (rule closest_loop_first[OF nz _ f]) (simp add: maxDistance_def)
  have "close_to u ?r" using f by (auto simp: find_Some_iff)
  then have ne: "?r \<noteq> []" by (auto simp: close_to_lev)
  have "u \<noteq> []" using assms(5) by auto
  then show ?thesis
    using assms(3,5,6) loop ne
    by (simp add: SuggestKeyword_def Let_def exact_match_iff del: closest_loop.simps)
qed

theorem SuggestKeyword_single_edit_witness:
  "is_ascii ''selec '' \<and>
   ''SELECT'' \<in> set cqlKeywords \<and> ''SELEC'' = ToUpper (TrimSpace ''selec '') \<and>
   one_edit ''SELECT'' ''SELEC'' \<and> ''SELEC'' \<notin> set cqlKeywords \<and>
   edit_dist ''SELEC'' ''SELECT'' = 1 \<and>
   SuggestKeyword ''selec '' = ''SELECT''"
  using SuggestKeyword_single_edit[of "''SELECT''" "''SELEC''" "''selec ''"]
  by (simp add: cqlKeywords_def ToUpper_def TrimSpace_def is_space_def upper_char_def
      is_ascii_def)

text \<open>
  The claim as stated fails twice. Deleting the last letter of FROM gives FRO, which is
  below the length cutoff and gets no suggestion. Deleting the O of NOLOGIN gives NLOGIN,
  which is also one insertion away from LOGIN; LOGIN stands earlier in the table and is
  the suggestion.
\<close>

theorem SuggestKeyword_single_edit_counterexample:
  "is_ascii ''FRO'' \<and> is_ascii ''NLOGIN'' \<and>
   ''FROM'' \<in> set cqlKeywords \<and> 4 \<le> length ''FROM'' \<and> one_edit ''FROM'' ''FRO'' \<and>
   ''FRO'' \<notin> set cqlKeywords \<and> SuggestKeyword ''FRO'' \<noteq> ''FROM'' \<and>
   ''NOLOGIN'' \<in> set cqlKeywords \<and> 4 \<le> length ''NOLOGIN'' \<and> one_edit ''NOLOGIN'' ''NLOGIN'' \<and>
   ''NLOGIN'' \<notin> set cqlKeywords \<and> SuggestKeyword ''NLOGIN'' \<noteq> ''NOLOGIN''"
  by code_simp


section \<open>Properties of the error diagnosis\<close>

lemma scan_words_find:
  "scan_words ws =
     (case find typo_word ws of
        None \<Rightarrow> []
      | Some w \<Rightarrow> did_you_mean (SuggestKeyword (clean_word w)))"
  by (induction ws) (auto simp: Let_def typo_word_def clean_word_def exact_match_iff)

lemma did_you_mean_nonempty [simp]: "did_you_mean s \<noteq> []"
  by (simp add: did_you_mean_def)

lemma token_patterns_loop_nonempty: "token_patterns_loop res msg = Some r \<Longrightarrow> r \<noteq> []"
  by (induction res) (auto split: option.splits if_splits)

lemma no_viable_step_nonempty: "no_viable_step msg = Some r \<Longrightarrow> r \<noteq> []"
  by (auto simp: no_viable_step_def Let_def split: option.splits if_splits)

lemma findTypoSuggestion_cases:
  "findTypoSuggestion msg input =
     (case token_patterns_loop [re_mismatched, re_extraneous] msg of
        Some r \<Rightarrow> r
      | None \<Rightarrow> (case no_viable_step msg of Some r \<Rightarrow> r | None \<Rightarrow> []))"
  unfolding findTypoSuggestion_def ..

lemma suggestKeywordFromError_fallback:
  "suggestKeywordFromError msg input =
     (if findTypoSuggestion msg input \<noteq> [] then findTypoSuggestion msg input
      else scan_words (Fields input))"
proof -
  define t where "t = token_patterns_loop [re_mismatched, re_extraneous] msg"
  define n where "n = no_viable_step msg"
  have t: "r \<noteq> []" if "t = Some r" for r
    using that token_patterns_loop_nonempty unfolding t_def by blast
  have n: "r \<noteq> []" if "n = Some r" for r
    using that no_viable_step_nonempty unfolding n_def by blast
  have f: "findTypoSuggestion msg input =
            (case t of Some r \<Rightarrow> r | None \<Rightarrow> (case n of Some r \<Rightarrow> r | None \<Rightarrow> []))"
    unfolding t_def n_def by (rule findTypoSuggestion_cases)
  have s: "suggestKeywordFromError msg input =
            (case t of Some r \<Rightarrow> r | None \<Rightarrow> (case n of Some r \<Rightarrow> r | None \<Rightarrow> scan_words (Fields input)))"
    unfolding t_def n_def suggestKeywordFromError_def ..
  show ?thesis
  proof (cases t)
    case (Some r)
    then show ?thesis using t[OF Some] by (simp add: f s)
  next
    case None
    show ?thesis
    proof (cases n)
      case (Some r)
      then show ?thesis using n[OF Some] None by (simp add: f s)
    next
      case N: None
      then show ?thesis using None by (simp add: f s)
    qed
  qed
qed

text \<open>
  Claim C7, as amended. For an ASCII message and an ASCII query, the suggestion of the
  error that the collector reports is found in three steps. If \<^const>\<open>TransformError\<close>
  returns a suggestion, that suggestion is reported as it is. Otherwise, if the token
  taken from the raw message (\<^const>\<open>findTypoSuggestion\<close>: the token of a mismatched-input
  or extraneous-input message, or the last word of a no-viable-alternative message) has a
  keyword suggestion, that one is reported. Otherwise the words of the query are scanned:
  the suggestion is "Did you mean" the keyword found for the first word of the query
  that, stripped of its punctuation, is not a keyword and has a close keyword, and it is
  empty when there is no such word.
\<close>

theorem query_fallback:
  assumes "is_ascii msg" "is_ascii (ec_input c)"
  shows "err_Suggestion (last (ec_errors (SyntaxError c line column msg))) =
           (if tr_Suggestion (TransformError msg (ec_input c)) \<noteq> []
            then tr_Suggestion (TransformError msg (ec_input c))
            else if findTypoSuggestion msg (ec_input c) \<noteq> []
            then findTypoSuggestion msg (ec_input c)
            else (case find typo_word (Fields (ec_input c)) of
                    None \<Rightarrow> []
                  | Some w \<Rightarrow> did_you_mean (SuggestKeyword (clean_word w))))"
  by (simp add: SyntaxError_def Let_def suggestKeywordFromError_fallback scan_words_find)

text \<open>
  A query with a misspelled DISTINCT and a message of the no-viable-alternative kind that
  ends at the word after it: the pattern of that name has no suggestion template, the
  last word of the message is too short for a keyword suggestion, and the suggestion
  comes from the scan of the query.
\<close>

lemma no_viable_no_suggestion:
  "tr_Suggestion (TransformError
      (''no viable alternative at input '' @ sq @ ''SELECT DISTNCT id'' @ sq)
      ''SELECT DISTNCT id FROM t'') = []"
  by code_simp

lemma no_viable_no_token:
  "findTypoSuggestion (''no viable alternative at input '' @ sq @ ''SELECT DISTNCT id'' @ sq)
      ''SELECT DISTNCT id FROM t'' = []"
  by code_simp

lemma first_typo_word: "find typo_word (Fields ''SELECT DISTNCT id FROM t'') = Some ''DISTNCT''"
  by code_simp

lemma suggest_DISTNCT: "SuggestKeyword (clean_word ''DISTNCT'') = ''DISTINCT''"
  by code_simp

lemma no_viable_ascii:
  "is_ascii (''no viable alternative at input '' @ sq @ ''SELECT DISTNCT id'' @ sq)"
  "is_ascii ''SELECT DISTNCT id FROM t''"
  by (simp_all add: is_ascii_def)

theorem query_fallback_witness:
  "is_ascii (''no viable alternative at input '' @ sq @ ''SELECT DISTNCT id'' @ sq) \<and>
   is_ascii ''SELECT DISTNCT id FROM t'' \<and>
   tr_Suggestion (TransformError
      (''no viable alternative at input '' @ sq @ ''SELECT DISTNCT id'' @ sq)
      ''SELECT DISTNCT id FROM t'') = [] \<and>
   findTypoSuggestion (''no viable alternative at input '' @ sq @ ''SELECT DISTNCT id'' @ sq)
      ''SELECT DISTNCT id FROM t'' = [] \<and>
   err_Suggestion (last (ec_errors
      (SyntaxError \<lparr>ec_errors = [], ec_input = ''SELECT DISTNCT id FROM t''\<rparr> 1 15
         (''no viable alternative at input '' @ sq @ ''SELECT DISTNCT id'' @ sq))))
     = did_you_mean ''DISTINCT''"
  using query_fallback[of "''no viable alternative at input '' @ sq @ ''SELECT DISTNCT id'' @ sq"
      "\<lparr>ec_errors = [], ec_input = ''SELECT DISTNCT id FROM t''\<rparr>" 1 15]
    no_viable_no_suggestion no_viable_no_token first_typo_word suggest_DISTNCT no_viable_ascii
  by simp

text \<open>
  The claim as stated fails where the registry has a suggestion of its own. The lexer's
  message for an invalid character carries no token for the heuristic, the query starts
  with a misspelled SELECT that the scan of the query would find, and the reported
  suggestion is the one of the pattern \<^verbatim>\<open>token-recognition\<close>.
\<close>

theorem query_fallback_counterexample:
  "is_ascii (''token recognition error at: '' @ sq @ ''#'' @ sq) \<and> is_ascii ''SELCT # FROM t'' \<and>
   findTypoSuggestion (''token recognition error at: '' @ sq @ ''#'' @ sq) ''SELCT # FROM t'' = [] \<and>
   scan_words (Fields ''SELCT # FROM t'') = did_you_mean ''SELECT'' \<and>
   err_Suggestion (last (ec_errors
      (SyntaxError \<lparr>ec_errors = [], ec_input = ''SELCT # FROM t''\<rparr> 1 6
         (''token recognition error at: '' @ sq @ ''#'' @ sq)))) = ''Remove or escape this character''"
  by code_simp


section \<open>Properties of the analysis\<close>

lemma then_do_Inr [simp]: "then_do (Inr v) f = f v"
  by (simp add: then_do_def)

lemma then_do_Inl [simp]: "then_do (Inl e) f = Inl e"
  by (simp add: then_do_def)

lemma deref_Some [simp]: "deref (Some v) = Inr v"
  by (simp add: deref_def)

lemma GetKeyspace_Some: "GetKeyspace (Some sv) name = Inr (ptr_index (Keyspaces sv) name)"
  by (cases "Keyspaces sv") (simp_all add: GetKeyspace_def ptr_index_def)

lemma GetTable_Some: "GetTable (Some kv) name = Inr (ptr_index (ks_Tables kv) name)"
  by (cases "ks_Tables kv") (simp_all add: GetTable_def ptr_index_def)

lemma GetColumn_Some: "GetColumn (Some tv) name = Inr (ptr_index (tbl_Columns tv) name)"
  by (cases "tbl_Columns tv") (simp_all add: GetColumn_def ptr_index_def)

lemma all_columns_loop_ok: "\<exists>cols. all_columns_loop (Some tv) names = Inr cols"
  by (induction names) (auto simp: GetColumn_Some)

lemma suggestColumn_ok: "\<exists>sg. suggestColumn (Some tv) name = Inr sg"
  using all_columns_loop_ok[of tv "tbl_ColumnOrder tv"]
  by (auto simp: suggestColumn_def AllColumns_def)

lemma columns_loop_ok:
  "\<exists>errs. columns_loop (Some tv) tn cols result
            = Inr (result\<lparr>res_SchemaErrors := res_SchemaErrors result @ errs\<rparr>)
          \<and> (\<forall>e \<in> set errs. se_Type e = ErrUnknownColumn)"
proof (induction cols arbitrary: result)
  case Nil
  have "columns_loop (Some tv) tn [] result
          = Inr (result\<lparr>res_SchemaErrors := res_SchemaErrors result @ []\<rparr>)" by simp
  then show ?case by (intro exI[of _ "[]"]) simp
next
  case (Cons c cols)
  show ?case
  proof (cases "c = ''*'' \<or> ptr_index (tbl_Columns tv) c \<noteq> None")
    case True
    then have "columns_loop (Some tv) tn (c # cols) result = columns_loop (Some tv) tn cols result"
      by (auto simp: GetColumn_Some)
    then show ?thesis using Cons.IH[of result] by simp
  next
    case False
    obtain sg where sg: "suggestColumn (Some tv) c = Inr sg" using suggestColumn_ok by blast
    define e where "e = \<lparr>se_Type = ErrUnknownColumn,
                     se_Message = ''Column '' @ sq @ c @ sq @ '' not found in table ''
                                    @ sq @ tn @ sq,
                     se_Suggestion = sg, se_Object = c,
                     se_Position = None\<rparr>"
    define r1 where "r1 = result\<lparr>res_SchemaErrors := res_SchemaErrors result @ [e]\<rparr>"
    have step: "columns_loop (Some tv) tn (c # cols) result = columns_loop (Some tv) tn cols r1"
      using False sg by (simp add: GetColumn_Some r1_def e_def)
    from Cons.IH[of r1] obtain errs where
      h: "columns_loop (Some tv) tn cols r1 = Inr (r1\<lparr>res_SchemaErrors := res_SchemaErrors r1 @ errs\<rparr>)"
         "\<forall>e \<in> set errs. se_Type e = ErrUnknownColumn" by blast
    have "columns_loop (Some tv) tn (c # cols) result
            = Inr (result\<lparr>res_SchemaErrors := res_SchemaErrors result @ (e # errs)\<rparr>)"
      using step h(1) by (simp add: r1_def)
    moreover have "\<forall>x \<in> set (e # errs). se_Type x = ErrUnknownColumn"
      using h(2) by (simp add: e_def)
    ultimately show ?thesis by blast
  qed
qed

lemma where_set_loop_iff:
  "where_set_loop cols m k \<longleftrightarrow> m k \<or> k \<in> set (map ToLower cols)"
  by (induction cols arbitrary: m) auto

lemma missing_loop_filter:
  "missing_loop w pks acc = acc @ filter (\<lambda>pk. \<not> w (ToLower pk)) pks"
  by (induction pks arbitrary: acc) auto

lemma clustering_loop_warnings:
  "clustering_loop w cks gap result =
     result\<lparr>res_Warnings := res_Warnings result @
        map clustering_warning
          (filter (\<lambda>ck. w (ToLower ck))
             (if gap then cks else dropWhile (\<lambda>ck. w (ToLower ck)) cks))\<rparr>"
  by (induction cks arbitrary: gap result) (auto simp: Let_def)

lemma validatePartitionKey_warnings:
  "validatePartitionKey result tbl =
     result\<lparr>res_Warnings := res_Warnings result @
       (let missing = missing_keys (res_References result) tbl in
        if missing = [] then
          map clustering_warning
            (filter (restricted (ref_WhereColumns (res_References result)))
               (dropWhile (restricted (ref_WhereColumns (res_References result)))
                  (tbl_ClusteringKey tbl)))
        else
          [partition_warning missing
             (if length missing = length (tbl_PartitionKey tbl)
              then ''Add partition key columns to WHERE clause or use ALLOW FILTERING''
              else ''All partition key columns must be specified'')])\<rparr>"
proof -
  let ?wc = "ref_WhereColumns (res_References result)"
  have w: "where_set_loop ?wc (\<lambda>k. False) (ToLower c) = restricted ?wc c" for c
    by (simp add: where_set_loop_iff restricted_def)
  have m: "missing_loop (where_set_loop ?wc (\<lambda>k. False)) (tbl_PartitionKey tbl) []
             = missing_keys (res_References result) tbl"
    by (simp add: missing_loop_filter w missing_keys_def)
  show ?thesis
    unfolding validatePartitionKey_def Let_def m validateClusteringKeyOrder_def
      clustering_loop_warnings
    by (cases "tbl_ClusteringKey tbl") (simp_all add: w)
qed

lemma generateWarnings_errors [simp]:
  "res_SchemaErrors (generateWarnings r opts) = res_SchemaErrors r"
  by (simp add: generateWarnings_def Let_def add_warning_def)

lemma generateWarnings_key_warnings:
  "t = WarnMissingPartitionKey \<or> t = WarnMissingClusteringKey \<Longrightarrow>
     WarningsOfType (generateWarnings r opts) t = WarningsOfType r t"
  by (auto simp: generateWarnings_def Let_def add_warning_def info_warning_def WarningsOfType_def)





text \<open>The shape of the result of Analyze once keyspace and table resolve.\<close>

lemma Analyze_resolved:
  assumes "opt_Schema opts = Some sch" "ref_Table refs \<noteq> []"
    and "resolve_keyspace refs opts \<noteq> []"
    and "ptr_index (Keyspaces sch) (resolve_keyspace refs opts) = Some ks"
    and "ptr_index (ks_Tables ks) (ref_Table refs) = Some tbl"
  shows "\<exists>r cerrs. Analyze gen cql (refs, stmtType, []) (Some opts) = Inr r
           \<and> (\<forall>e \<in> set cerrs. se_Type e = ErrUnknownColumn)
           \<and> res_SchemaErrors r = cerrs @
                (if ref_FunctionCalls refs = [] then []
                 else ValidateFunctionCalls (buildFunctionSignatures gen) (ref_FunctionCalls refs))
           \<and> WarningsOfType r WarnMissingPartitionKey =
                filter (\<lambda>w. w_Type w = WarnMissingPartitionKey) (key_warnings stmtType refs tbl)
           \<and> WarningsOfType r WarnMissingClusteringKey =
                filter (\<lambda>w. w_Type w = WarnMissingClusteringKey) (key_warnings stmtType refs tbl)"
proof -
  define refs' where "refs' = (if ref_Keyspace refs = [] \<and> opt_DefaultKeyspace opts \<noteq> []
                        then refs\<lparr>ref_Keyspace := opt_DefaultKeyspace opts\<rparr> else refs)"
  define result where "result = \<lparr>res_Query = cql, res_Type = stmtType,
                    res_IsValid = True, res_SyntaxErrors = [],
                    res_References = refs', res_SchemaErrors = [], res_Warnings = []\<rparr>"
  have k: "ref_Keyspace refs' = resolve_keyspace refs opts" "ref_Keyspace refs' \<noteq> []"
    using assms(3) by (auto simp: refs'_def resolve_keyspace_def)
  have r': "ref_Table refs' = ref_Table refs" "ref_WhereColumns refs' = ref_WhereColumns refs"
    "ref_Columns refs' = ref_Columns refs" "ref_FunctionCalls refs' = ref_FunctionCalls refs"
    "missing_keys refs' tbl = missing_keys refs tbl"
    by (auto simp: refs'_def missing_keys_def)
  obtain cerrs where c: "columns_loop (Some tbl) (tbl_Name tbl) (ref_Columns refs) result
            = Inr (result\<lparr>res_SchemaErrors := res_SchemaErrors result @ cerrs\<rparr>)"
          "\<forall>e \<in> set cerrs. se_Type e = ErrUnknownColumn"
    using columns_loop_ok by blast
  define r1 where "r1 = result\<lparr>res_SchemaErrors := cerrs\<rparr>"
  define r2 where "r2 = (if IsDML stmtType \<and> stmtType \<noteq> StatementInsert
                         then validatePartitionKey r1 tbl else r1)"
  have v: "validateSchema result opts = Inr r2"
    using assms(1,4,5) k r' c(1)
    by (simp add: validateSchema_def validate_in_keyspace_def Let_def GetKeyspace_Some
        GetTable_Some result_def r1_def r2_def)
  define r3 where "r3 = (if ref_FunctionCalls refs = [] then r2
     else r2\<lparr>res_SchemaErrors := res_SchemaErrors r2 @
            ValidateFunctionCalls (buildFunctionSignatures gen) (ref_FunctionCalls refs)\<rparr>)"
  have a: "Analyze gen cql (refs, stmtType, []) (Some opts) = Inr (generateWarnings r3 opts)"
    using assms(1,2) v r'
    by (simp add: Analyze_def Let_def refs'_def[symmetric] result_def[symmetric] r3_def)
  have e2: "res_SchemaErrors r2 = cerrs"
    by (simp add: r2_def r1_def validatePartitionKey_warnings)
  have e3: "res_SchemaErrors (generateWarnings r3 opts) = cerrs @
                (if ref_FunctionCalls refs = [] then []
                 else ValidateFunctionCalls (buildFunctionSignatures gen) (ref_FunctionCalls refs))"
    by (simp add: r3_def e2)
  have w1: "res_Warnings r1 = []" "res_References r1 = refs'" by (simp_all add: r1_def result_def)
  have w3: "res_Warnings r3 = res_Warnings r2" by (simp add: r3_def)
  have w2: "res_Warnings r2 = key_warnings stmtType refs tbl"
    by (simp add: r2_def validatePartitionKey_warnings w1 r' Let_def key_warnings_def)
  have p: "WarningsOfType (generateWarnings r3 opts) WarnMissingPartitionKey =
             filter (\<lambda>w. w_Type w = WarnMissingPartitionKey) (key_warnings stmtType refs tbl)"
    using generateWarnings_key_warnings[of WarnMissingPartitionKey r3 opts]
    by (simp add: WarningsOfType_def w3 w2)
  have q: "WarningsOfType (generateWarnings r3 opts) WarnMissingClusteringKey =
             filter (\<lambda>w. w_Type w = WarnMissingClusteringKey) (key_warnings stmtType refs tbl)"
    using generateWarnings_key_warnings[of WarnMissingClusteringKey r3 opts]
    by (simp add: WarningsOfType_def w3 w2)
  show ?thesis
    by (rule exI[of _ "generateWarnings r3 opts"], rule exI[of _ cerrs], intro conjI)
       (rule a c(2) e3 p q)+
qed

lemma filter_clustering_warnings:
  "filter (\<lambda>w. w_Type w = WarnMissingClusteringKey) (map clustering_warning cs) = map clustering_warning cs"
  "filter (\<lambda>w. w_Type w = WarnMissingPartitionKey) (map clustering_warning cs) = []"
  by (induction cs) (simp_all add: clustering_warning_def)


text \<open>
  Claim C1. Take a syntactically valid DML statement other than INSERT, analyzed against a
  schema in which its keyspace and its table resolve, the names of the WHERE columns and
  of the partition-key columns being ASCII. The partition-key columns that do not occur
  among the WHERE columns (compared without regard to case) are the missing ones. If there are any, the analysis has exactly one finding of kind
  \<^verbatim>\<open>missing_partition_key\<close>, of severity error, whose message lists them; if there are
  none, it has no such finding.
\<close>

theorem partition_key_completeness:
  assumes "IsDML stmtType" "stmtType \<noteq> StatementInsert"
    and "opt_Schema opts = Some sch" "ref_Table refs \<noteq> []"
    and "resolve_keyspace refs opts \<noteq> []"
    and "ptr_index (Keyspaces sch) (resolve_keyspace refs opts) = Some ks"
    and "ptr_index (ks_Tables ks) (ref_Table refs) = Some tbl"
    and "list_all is_ascii (ref_WhereColumns refs)" "list_all is_ascii (tbl_PartitionKey tbl)"
  shows "\<exists>r. Analyze gen cql (refs, stmtType, []) (Some opts) = Inr r \<and>
           WarningsOfType r WarnMissingPartitionKey =
             (let missing = filter (\<lambda>pk. \<not> restricted (ref_WhereColumns refs) pk)
                              (tbl_PartitionKey tbl)
              in if missing = [] then []
                 else [\<lparr>w_Type = WarnMissingPartitionKey, w_Severity = SeverityError,
                        w_Message = ''Query is missing partition key column(s): ''
                                      @ Join missing '', '',
                        w_Suggestion =
                          (if length missing = length (tbl_PartitionKey tbl)
                           then ''Add partition key columns to WHERE clause or use ALLOW FILTERING''
                           else ''All partition key columns must be specified''),
                        w_Position = None\<rparr>])"
proof -
  from Analyze_resolved[OF assms(3-7), of gen cql stmtType] obtain r where
    r: "Analyze gen cql (refs, stmtType, []) (Some opts) = Inr r"
       "WarningsOfType r WarnMissingPartitionKey =
          filter (\<lambda>w. w_Type w = WarnMissingPartitionKey) (key_warnings stmtType refs tbl)"
    by blast
  have "filter (\<lambda>w. w_Type w = WarnMissingPartitionKey) (key_warnings stmtType refs tbl) =
             (let missing = filter (\<lambda>pk. \<not> restricted (ref_WhereColumns refs) pk)
                              (tbl_PartitionKey tbl)
              in if missing = [] then []
                 else [\<lparr>w_Type = WarnMissingPartitionKey, w_Severity = SeverityError,
                        w_Message = ''Query is missing partition key column(s): ''
                                      @ Join missing '', '',
                        w_Suggestion =
                          (if length missing = length (tbl_PartitionKey tbl)
                           then ''Add partition key columns to WHERE clause or use ALLOW FILTERING''
                           else ''All partition key columns must be specified''),
                        w_Position = None\<rparr>])"
    using assms(1,2)
    by (simp add: key_warnings_def Let_def missing_keys_def filter_clustering_warnings
        partition_warning_def)
  with r show ?thesis by (intro exI[of _ r]) simp
qed

lemma users_no_schema_errors:
  "(case Analyze [] ''SELECT * FROM ks.users WHERE id = 1''
       (select_where ''ks'' ''users'' [''id''], StatementSelect, []) (Some users_options) of
      Inl e \<Rightarrow> None | Inr r \<Rightarrow> Some (res_SchemaErrors r)) = Some []"
  by code_simp

lemma to_lower_simps:
  "ToLower ''id'' = ''id''" "ToLower ''name'' = ''name''" "ToLower ''ID'' = ''id''"
  by (simp_all add: ToLower_def lower_char_def)

theorem partition_key_completeness_witness:
  "(\<exists>r. Analyze [] (''SELECT * FROM ks.users WHERE name = 'x'' @ sq)
           (select_where ''ks'' ''users'' [''name''], StatementSelect, []) (Some users_options) = Inr r \<and>
         WarningsOfType r WarnMissingPartitionKey =
           [\<lparr>w_Type = WarnMissingPartitionKey, w_Severity = SeverityError,
             w_Message = ''Query is missing partition key column(s): id'',
             w_Suggestion = ''Add partition key columns to WHERE clause or use ALLOW FILTERING'',
             w_Position = None\<rparr>]) \<and>
   (\<exists>r. Analyze [] ''SELECT * FROM ks.users WHERE id = 1''
           (select_where ''ks'' ''users'' [''id''], StatementSelect, []) (Some users_options) = Inr r \<and>
         WarningsOfType r WarnMissingPartitionKey = [] \<and> res_SchemaErrors r = []) \<and>
   (\<exists>r. Analyze [] ''SELECT * FROM ks.users WHERE ID = 1''
           (select_where ''ks'' ''users'' [''ID''], StatementSelect, []) (Some users_options) = Inr r \<and>
         WarningsOfType r WarnMissingPartitionKey = [])"
proof -
  have a: "IsDML StatementSelect" "StatementSelect \<noteq> StatementInsert"
    "opt_Schema users_options = Some users_schema"
    by (simp_all add: IsDML_def users_options_def)
  have b: "ref_Table (select_where ''ks'' ''users'' cols) \<noteq> []"
    "resolve_keyspace (select_where ''ks'' ''users'' cols) users_options \<noteq> []"
    "ptr_index (Keyspaces users_schema) (resolve_keyspace (select_where ''ks'' ''users'' cols) users_options)
       = Some users_keyspace"
    "ptr_index (ks_Tables users_keyspace) (ref_Table (select_where ''ks'' ''users'' cols)) = Some users_table"
    for cols
    by (simp_all add: select_where_def resolve_keyspace_def users_schema_def users_keyspace_def
        ptr_index_def)
  have c: "list_all is_ascii (ref_WhereColumns (select_where ''ks'' ''users'' [''name'']))"
    "list_all is_ascii (ref_WhereColumns (select_where ''ks'' ''users'' [''id'']))"
    "list_all is_ascii (ref_WhereColumns (select_where ''ks'' ''users'' [''ID'']))"
    by (simp_all add: select_where_def is_ascii_def)
  have d: "list_all is_ascii (tbl_PartitionKey users_table)"
    by (simp add: users_table_def is_ascii_def)
  have 1: "\<exists>r. Analyze [] (''SELECT * FROM ks.users WHERE name = 'x'' @ sq)
           (select_where ''ks'' ''users'' [''name''], StatementSelect, []) (Some users_options) = Inr r \<and>
         WarningsOfType r WarnMissingPartitionKey =
           [\<lparr>w_Type = WarnMissingPartitionKey, w_Severity = SeverityError,
             w_Message = ''Query is missing partition key column(s): id'',
             w_Suggestion = ''Add partition key columns to WHERE clause or use ALLOW FILTERING'',
             w_Position = None\<rparr>]"
    using partition_key_completeness[OF a b[of "[''name'']"] c(1) d, where gen = "[]"
        and cql = "(''SELECT * FROM ks.users WHERE name = 'x'' @ sq)"]
    by (simp add: select_where_def users_table_def restricted_def to_lower_simps)
  obtain r where r: "Analyze [] ''SELECT * FROM ks.users WHERE id = 1''
           (select_where ''ks'' ''users'' [''id''], StatementSelect, []) (Some users_options) = Inr r"
         "WarningsOfType r WarnMissingPartitionKey = []"
    using partition_key_completeness[OF a b[of "[''id'']"] c(2) d, where gen = "[]"
        and cql = "''SELECT * FROM ks.users WHERE id = 1''"]
    by (auto simp add: select_where_def users_table_def restricted_def to_lower_simps)
  have "res_SchemaErrors r = []" using users_no_schema_errors r(1) by simp
  with r have 2: "\<exists>r. Analyze [] ''SELECT * FROM ks.users WHERE id = 1''
           (select_where ''ks'' ''users'' [''id''], StatementSelect, []) (Some users_options) = Inr r \<and>
         WarningsOfType r WarnMissingPartitionKey = [] \<and> res_SchemaErrors r = []" by blast
  have 3: "\<exists>r. Analyze [] ''SELECT * FROM ks.users WHERE ID = 1''
           (select_where ''ks'' ''users'' [''ID''], StatementSelect, []) (Some users_options) = Inr r \<and>
         WarningsOfType r WarnMissingPartitionKey = []"
    using partition_key_completeness[OF a b[of "[''ID'']"] c(3) d, where gen = "[]"
        and cql = "''SELECT * FROM ks.users WHERE ID = 1''"]
    by (auto simp add: select_where_def users_table_def restricted_def to_lower_simps)
  from 1 2 3 show ?thesis by (intro conjI)
qed

lemma to_lower_pabc:
  "ToLower ''p'' = ''p''" "ToLower ''a'' = ''a''" "ToLower ''b'' = ''b''" "ToLower ''c'' = ''c''"
  "ToLower ''B'' = ''b''"
  by (simp_all add: ToLower_def lower_char_def)

text \<open>
  Claim C2. Under the hypotheses of C1, the names of the clustering-key columns being
  ASCII as well, the clustering-key check runs only when no partition-key column is
  missing. It goes through the clustering-key columns in definition order; the first
  column absent from the WHERE columns opens a gap, and every later clustering column
  that is present gets a finding of kind \<^verbatim>\<open>missing_clustering_key\<close>, of severity warning,
  whose message names it: the findings are those of the present columns that remain once
  the leading present columns are dropped, in that order. With the clustering keys
  \<^verbatim>\<open>(a, b, c)\<close>, restricting \<^verbatim>\<open>a\<close> and \<^verbatim>\<open>c\<close> warns about \<^verbatim>\<open>c\<close>, restricting \<^verbatim>\<open>a\<close> and \<^verbatim>\<open>b\<close>
  warns about nothing.
\<close>

theorem clustering_key_order:
  assumes "IsDML stmtType" "stmtType \<noteq> StatementInsert"
    and "opt_Schema opts = Some sch" "ref_Table refs \<noteq> []"
    and "resolve_keyspace refs opts \<noteq> []"
    and "ptr_index (Keyspaces sch) (resolve_keyspace refs opts) = Some ks"
    and "ptr_index (ks_Tables ks) (ref_Table refs) = Some tbl"
    and "list_all is_ascii (ref_WhereColumns refs)" "list_all is_ascii (tbl_PartitionKey tbl)"
    and "list_all is_ascii (tbl_ClusteringKey tbl)"
  shows "\<exists>r. Analyze gen cql (refs, stmtType, []) (Some opts) = Inr r \<and>
           WarningsOfType r WarnMissingClusteringKey =
             (if list_all (restricted (ref_WhereColumns refs)) (tbl_PartitionKey tbl)
              then map (\<lambda>col.
                          \<lparr>w_Type = WarnMissingClusteringKey, w_Severity = SeverityWarning,
                           w_Message = ''Clustering column '' @ sq @ col @ sq
                                         @ '' is used without preceding clustering columns'',
                           w_Suggestion = ''Include preceding clustering columns in WHERE clause or use ALLOW FILTERING'',
                           w_Position = None\<rparr>)
                     (filter (restricted (ref_WhereColumns refs))
                        (dropWhile (restricted (ref_WhereColumns refs)) (tbl_ClusteringKey tbl)))
              else [])"
proof -
  from Analyze_resolved[OF assms(3-7), of gen cql stmtType] obtain r where
    r: "Analyze gen cql (refs, stmtType, []) (Some opts) = Inr r"
       "WarningsOfType r WarnMissingClusteringKey =
          filter (\<lambda>w. w_Type w = WarnMissingClusteringKey) (key_warnings stmtType refs tbl)"
    by blast
  have m: "missing_keys refs tbl = [] \<longleftrightarrow>
             list_all (restricted (ref_WhereColumns refs)) (tbl_PartitionKey tbl)"
    by (simp add: missing_keys_def filter_empty_conv list_all_iff)
  have f: "filter (\<lambda>w. w_Type w = WarnMissingClusteringKey) (key_warnings stmtType refs tbl) =
             (if list_all (restricted (ref_WhereColumns refs)) (tbl_PartitionKey tbl)
              then map clustering_warning
                     (filter (restricted (ref_WhereColumns refs))
                        (dropWhile (restricted (ref_WhereColumns refs)) (tbl_ClusteringKey tbl)))
              else [])"
    using assms(1,2) m
    by (simp add: key_warnings_def Let_def filter_clustering_warnings partition_warning_def)
  have w: "clustering_warning =
             (\<lambda>col. \<lparr>w_Type = WarnMissingClusteringKey, w_Severity = SeverityWarning,
                      w_Message = ''Clustering column '' @ sq @ col @ sq
                                    @ '' is used without preceding clustering columns'',
                      w_Suggestion = ''Include preceding clustering columns in WHERE clause or use ALLOW FILTERING'',
                      w_Position = None\<rparr>)"
    by (rule ext) (simp add: clustering_warning_def)
  show ?thesis using r f unfolding w by (intro exI[of _ r]) simp
qed

theorem clustering_key_order_witness:
  "(\<exists>r. Analyze [] ''SELECT * FROM ks.series WHERE p = 1 AND a = 1 AND c = 1''
           (select_where ''ks'' ''series'' [''p'', ''a'', ''c''], StatementSelect, [])
           (Some series_options) = Inr r \<and>
         map (\<lambda>w. (w_Severity w, w_Message w)) (WarningsOfType r WarnMissingClusteringKey) =
           [(SeverityWarning, ''Clustering column '' @ sq @ ''c'' @ sq
                           @ '' is used without preceding clustering columns'')]) \<and>
   (\<exists>r. Analyze [] ''SELECT * FROM ks.series WHERE p = 1 AND a = 1 AND b = 1''
           (select_where ''ks'' ''series'' [''p'', ''a'', ''b''], StatementSelect, [])
           (Some series_options) = Inr r \<and>
         WarningsOfType r WarnMissingClusteringKey = []) \<and>
   (\<exists>r. Analyze [] ''SELECT * FROM ks.series WHERE p = 1 AND B = 1 AND c = 1''
           (select_where ''ks'' ''series'' [''p'', ''B'', ''c''], StatementSelect, [])
           (Some series_options) = Inr r \<and>
         map (\<lambda>w. (w_Severity w, w_Message w)) (WarningsOfType r WarnMissingClusteringKey) =
           [(SeverityWarning, ''Clustering column '' @ sq @ ''b'' @ sq
                           @ '' is used without preceding clustering columns''),
            (SeverityWarning, ''Clustering column '' @ sq @ ''c'' @ sq
                           @ '' is used without preceding clustering columns'')]) \<and>
   (\<exists>r. Analyze [] ''SELECT * FROM ks.series WHERE a = 1 AND c = 1''
           (select_where ''ks'' ''series'' [''a'', ''c''], StatementSelect, [])
           (Some series_options) = Inr r \<and>
         WarningsOfType r WarnMissingClusteringKey = [])"
proof -
  have a: "IsDML StatementSelect" "StatementSelect \<noteq> StatementInsert"
    "opt_Schema series_options = Some series_schema"
    by (simp_all add: IsDML_def series_options_def)
  have b: "ref_Table (select_where ''ks'' ''series'' cols) \<noteq> []"
    "resolve_keyspace (select_where ''ks'' ''series'' cols) series_options \<noteq> []"
    "ptr_index (Keyspaces series_schema)
       (resolve_keyspace (select_where ''ks'' ''series'' cols) series_options) = Some series_keyspace"
    "ptr_index (ks_Tables series_keyspace) (ref_Table (select_where ''ks'' ''series'' cols))
       = Some series_table"
    for cols
    by (simp_all add: select_where_def resolve_keyspace_def series_schema_def series_keyspace_def
        ptr_index_def)
  have c: "list_all is_ascii (ref_WhereColumns (select_where ''ks'' ''series'' [''p'', ''a'', ''c'']))"
    "list_all is_ascii (ref_WhereColumns (select_where ''ks'' ''series'' [''p'', ''a'', ''b'']))"
    "list_all is_ascii (ref_WhereColumns (select_where ''ks'' ''series'' [''p'', ''B'', ''c'']))"
    "list_all is_ascii (ref_WhereColumns (select_where ''ks'' ''series'' [''a'', ''c'']))"
    by (simp_all add: select_where_def is_ascii_def)
  have d: "list_all is_ascii (tbl_PartitionKey series_table)"
    "list_all is_ascii (tbl_ClusteringKey series_table)"
    by (simp_all add: series_table_def is_ascii_def)
  have 1: "\<exists>r. Analyze [] ''SELECT * FROM ks.series WHERE p = 1 AND a = 1 AND c = 1''
           (select_where ''ks'' ''series'' [''p'', ''a'', ''c''], StatementSelect, [])
           (Some series_options) = Inr r \<and>
         map (\<lambda>w. (w_Severity w, w_Message w)) (WarningsOfType r WarnMissingClusteringKey) =
           [(SeverityWarning, ''Clustering column '' @ sq @ ''c'' @ sq
                           @ '' is used without preceding clustering columns'')]"
    using clustering_key_order[OF a b[of "[''p'', ''a'', ''c'']"] c(1) d, where gen = "[]"
        and cql = "''SELECT * FROM ks.series WHERE p = 1 AND a = 1 AND c = 1''"]
    by (auto simp add: select_where_def series_table_def restricted_def to_lower_pabc)
  have 2: "\<exists>r. Analyze [] ''SELECT * FROM ks.series WHERE p = 1 AND a = 1 AND b = 1''
           (select_where ''ks'' ''series'' [''p'', ''a'', ''b''], StatementSelect, [])
           (Some series_options) = Inr r \<and>
         WarningsOfType r WarnMissingClusteringKey = []"
    using clustering_key_order[OF a b[of "[''p'', ''a'', ''b'']"] c(2) d, where gen = "[]"
        and cql = "''SELECT * FROM ks.series WHERE p = 1 AND a = 1 AND b = 1''"]
    by (auto simp add: select_where_def series_table_def restricted_def to_lower_pabc)
  have 3: "\<exists>r. Analyze [] ''SELECT * FROM ks.series WHERE p = 1 AND B = 1 AND c = 1''
           (select_where ''ks'' ''series'' [''p'', ''B'', ''c''], StatementSelect, [])
           (Some series_options) = Inr r \<and>
         map (\<lambda>w. (w_Severity w, w_Message w)) (WarningsOfType r WarnMissingClusteringKey) =
           [(SeverityWarning, ''Clustering column '' @ sq @ ''b'' @ sq
                           @ '' is used without preceding clustering columns''),
            (SeverityWarning, ''Clustering column '' @ sq @ ''c'' @ sq
                           @ '' is used without preceding clustering columns'')]"
    using clustering_key_order[OF a b[of "[''p'', ''B'', ''c'']"] c(3) d, where gen = "[]"
        and cql = "''SELECT * FROM ks.series WHERE p = 1 AND B = 1 AND c = 1''"]
    by (auto simp add: select_where_def series_table_def restricted_def to_lower_pabc)
  have 4: "\<exists>r. Analyze [] ''SELECT * FROM ks.series WHERE a = 1 AND c = 1''
           (select_where ''ks'' ''series'' [''a'', ''c''], StatementSelect, [])
           (Some series_options) = Inr r \<and>
         WarningsOfType r WarnMissingClusteringKey = []"
    using clustering_key_order[OF a b[of "[''a'', ''c'']"] c(4) d, where gen = "[]"
        and cql = "''SELECT * FROM ks.series WHERE a = 1 AND c = 1''"]
    by (auto simp add: select_where_def series_table_def restricted_def to_lower_pabc)
  from 1 2 3 4 show ?thesis by (intro conjI)
qed





















section \<open>Properties of the function-call validation\<close>

lemma change_entry_other [simp]: "name \<noteq> c \<Longrightarrow> change_entry name f sigs c = sigs c"
  by (simp add: change_entry_def split: option.splits)

lemma change_or_add_entry_other [simp]:
  "name \<noteq> c \<Longrightarrow> change_or_add_entry name f fresh sigs c = sigs c"
  by (simp add: change_or_add_entry_def split: option.splits)

lemma add_entry_other [simp]: "name \<noteq> c \<Longrightarrow> add_entry name fresh sigs c = sigs c"
  by (simp add: add_entry_def split: option.splits)

lemma applySpecialCases_count:
  "applySpecialCases sigs ''count'' =
     (case sigs ''count'' of None \<Rightarrow> None
      | Some sig \<Rightarrow> Some (sig\<lparr>sig_MinArgs := 1, sig_MaxArgs := 1, sig_AllowStar := True\<rparr>))"
  by (simp add: applySpecialCases_def Let_def) (simp add: change_entry_def split: option.splits)

lemma signatures_loop_step:
  "\<exists>sigs'. signatures_loop (f # fs) sigs = signatures_loop fs sigs' \<and>
      sigs' (ToLower (fd_Name f)) \<noteq> None \<and> (\<forall>k. sigs k \<noteq> None \<longrightarrow> sigs' k \<noteq> None)"
proof (cases "sigs (ToLower (fd_Name f))")
  case None
  then show ?thesis
    by (intro exI[of _ "sigs(ToLower (fd_Name f) \<mapsto>
          \<lparr>sig_Name = ToLower (fd_Name f), sig_MinArgs = int (length (fd_Params f)),
            sig_MaxArgs = int (length (fd_Params f)), sig_AllowStar = False\<rparr>)"])
       (simp add: Let_def)
next
  case (Some existing)
  define e1 where "e1 = (if int (length (fd_Params f)) < sig_MinArgs existing
                           then existing\<lparr>sig_MinArgs := int (length (fd_Params f))\<rparr> else existing)"
  define e2 where "e2 = (if int (length (fd_Params f)) > sig_MaxArgs e1
                           then e1\<lparr>sig_MaxArgs := int (length (fd_Params f))\<rparr> else e1)"
  have "signatures_loop (f # fs) sigs = signatures_loop fs (sigs(ToLower (fd_Name f) \<mapsto> e2))"
    using Some by (simp add: Let_def e1_def e2_def)
  then show ?thesis
    by (intro exI[of _ "sigs(ToLower (fd_Name f) \<mapsto> e2)"]) simp
qed

lemma signatures_loop_keeps: "sigs name \<noteq> None \<Longrightarrow> signatures_loop fs sigs name \<noteq> None"
proof (induction fs arbitrary: sigs)
  case Nil
  then show ?case by simp
next
  case (Cons f fs)
  from signatures_loop_step[of f fs sigs] obtain sigs' where
    s: "signatures_loop (f # fs) sigs = signatures_loop fs sigs'"
       "\<forall>k. sigs k \<noteq> None \<longrightarrow> sigs' k \<noteq> None" by blast
  from s(2) Cons.prems have "sigs' name \<noteq> None" by blast
  then have "signatures_loop fs sigs' name \<noteq> None" by (rule Cons.IH[where sigs = sigs'])
  with s(1) show ?case by simp
qed

lemma signatures_loop_defined:
  "name \<in> set (map (\<lambda>f. ToLower (fd_Name f)) fs) \<Longrightarrow> signatures_loop fs sigs name \<noteq> None"
proof (induction fs arbitrary: sigs)
  case Nil
  then show ?case by simp
next
  case (Cons f fs)
  from signatures_loop_step[of f fs sigs] obtain sigs' where
    s: "signatures_loop (f # fs) sigs = signatures_loop fs sigs'"
       "sigs' (ToLower (fd_Name f)) \<noteq> None" by blast
  show ?case
  proof (cases "name = ToLower (fd_Name f)")
    case True
    then show ?thesis using s signatures_loop_keeps[of sigs' name fs] by simp
  next
    case False
    then have "name \<in> set (map (\<lambda>f. ToLower (fd_Name f)) fs)" using Cons.prems by simp
    from Cons.IH[OF this, of sigs'] s(1) show ?thesis by simp
  qed
qed

text \<open>
  Claim C3. Let the signature table be built from a catalogue that lists \<^verbatim>\<open>count\<close> (the
  generator adds it to every catalogue). Then \<^verbatim>\<open>count()\<close>, with no argument and no star,
  is rejected with an error of kind \<^verbatim>\<open>function_arg_count\<close>; \<^verbatim>\<open>count(*)\<close> and \<^verbatim>\<open>count(col)\<close>
  are not rejected; and a call whose name is not in the table is never rejected.
\<close>

theorem count_signature:
  assumes "''count'' \<in> set (map (\<lambda>f. ToLower (fd_Name f)) GenFunctions)"
    and "builtinFunctions = buildFunctionSignatures GenFunctions"
  shows "(\<exists>e. validateFunctionCall builtinFunctions (count_call 0 False pos) = Some e \<and>
              se_Type e = ErrFunctionArgCount) \<and>
         validateFunctionCall builtinFunctions (count_call n True pos) = None \<and>
         validateFunctionCall builtinFunctions (count_call 1 False pos) = None \<and>
         (builtinFunctions (fc_Name call) = None \<longrightarrow>
            validateFunctionCall builtinFunctions call = None)"
proof -
  obtain sig where s: "signatures_loop GenFunctions Map.empty ''count'' = Some sig"
    using signatures_loop_defined[OF assms(1), of Map.empty] by auto
  have c: "builtinFunctions ''count'' =
             Some (sig\<lparr>sig_MinArgs := 1, sig_MaxArgs := 1, sig_AllowStar := True\<rparr>)"
    by (simp add: assms(2) buildFunctionSignatures_def applySpecialCases_count s)
  show ?thesis
    by (simp add: validateFunctionCall_def count_call_def c arg_error_def)
qed

lemma count_known: "''count'' \<in> set (map (\<lambda>f. ToLower (fd_Name f)) known_functions)"
  by (simp add: known_functions_def ToLower_def lower_char_def)

lemma my_udf_unknown: "buildFunctionSignatures known_functions ''my_udf'' = None"
  by code_simp

theorem count_signature_witness:
  "(\<exists>e. validateFunctionCall (buildFunctionSignatures known_functions) (count_call 0 False None) = Some e \<and>
        se_Type e = ErrFunctionArgCount) \<and>
   validateFunctionCall (buildFunctionSignatures known_functions) (count_call 1 True None) = None \<and>
   validateFunctionCall (buildFunctionSignatures known_functions) (count_call 1 False None) = None \<and>
   validateFunctionCall (buildFunctionSignatures known_functions)
     \<lparr>fc_Name = ''my_udf'', fc_ArgCount = 7, fc_HasStar = False, fc_Position = None\<rparr> = None"
  using count_signature[OF count_known refl, where pos = None and n = 1
      and call = "\<lparr>fc_Name = ''my_udf'', fc_ArgCount = 7, fc_HasStar = False, fc_Position = None\<rparr>"]
    my_udf_unknown
  by simp


section \<open>Properties of the schema lookups\<close>

lemma ptr_index_absent: "\<not> has_key m k \<Longrightarrow> ptr_index m k = None"
proof (cases m)
  case None
  then show ?thesis by (simp add: ptr_index_def)
next
  case (Some kvs)
  assume "\<not> has_key m k"
  then have "k \<notin> fst ` set kvs" using Some by (simp add: has_key_def map_keys_def)
  then have "map_of kvs k = None" by (simp add: map_of_eq_None_iff)
  then show ?thesis using Some by (simp add: ptr_index_def)
qed

text \<open>
  Claim C9. For every schema, keyspace and table pointer (\<^verbatim>\<open>nil\<close> included, and with
  \<^verbatim>\<open>nil\<close> maps inside) and every name, \<^const>\<open>GetKeyspace\<close>, \<^const>\<open>GetTable\<close> and
  \<^const>\<open>GetColumn\<close> return without a panic, and they return \<^verbatim>\<open>nil\<close> when the receiver is
  \<^verbatim>\<open>nil\<close>, its map is \<^verbatim>\<open>nil\<close> or the map has no entry for the name.
\<close>

theorem lookups_nil_safe:
  "GetKeyspace s name =
     Inr (if s \<noteq> None \<and> has_key (Keyspaces (the s)) name
          then ptr_index (Keyspaces (the s)) name else None) \<and>
   GetTable ks name =
     Inr (if ks \<noteq> None \<and> has_key (ks_Tables (the ks)) name
          then ptr_index (ks_Tables (the ks)) name else None) \<and>
   GetColumn t name =
     Inr (if t \<noteq> None \<and> has_key (tbl_Columns (the t)) name
          then ptr_index (tbl_Columns (the t)) name else None)"
proof (intro conjI)
  show "GetKeyspace s name =
     Inr (if s \<noteq> None \<and> has_key (Keyspaces (the s)) name
          then ptr_index (Keyspaces (the s)) name else None)"
  proof (cases s)
    case None
    then show ?thesis by (simp add: GetKeyspace_def)
  next
    case (Some sv)
    then show ?thesis using ptr_index_absent[of "Keyspaces sv" name]
      by (auto simp: GetKeyspace_Some)
  qed
  show "GetTable ks name =
     Inr (if ks \<noteq> None \<and> has_key (ks_Tables (the ks)) name
          then ptr_index (ks_Tables (the ks)) name else None)"
  proof (cases ks)
    case None
    then show ?thesis by (simp add: GetTable_def)
  next
    case (Some kv)
    then show ?thesis using ptr_index_absent[of "ks_Tables kv" name]
      by (auto simp: GetTable_Some)
  qed
  show "GetColumn t name =
     Inr (if t \<noteq> None \<and> has_key (tbl_Columns (the t)) name
          then ptr_index (tbl_Columns (the t)) name else None)"
  proof (cases t)
    case None
    then show ?thesis by (simp add: GetColumn_def)
  next
    case (Some tv)
    then show ?thesis using ptr_index_absent[of "tbl_Columns tv" name]
      by (auto simp: GetColumn_Some)
  qed
qed

theorem lookups_nil_safe_witness:
  "GetKeyspace None ''missing'' = Inr None \<and> GetTable None ''missing'' = Inr None \<and>
   GetColumn None ''missing'' = Inr None \<and>
   GetKeyspace (Some \<lparr>Keyspaces = None\<rparr>) ''missing'' = Inr None \<and>
   GetTable (Some \<lparr>ks_Name = ''ks'', ks_Tables = None\<rparr>) ''missing'' = Inr None \<and>
   GetKeyspace (Some users_schema) ''missing'' = Inr None \<and>
   GetTable (Some users_keyspace) ''missing'' = Inr None \<and>
   GetColumn (Some users_table) ''missing'' = Inr None"
  using lookups_nil_safe[of None "''missing''" None None]
    lookups_nil_safe[of "Some \<lparr>Keyspaces = None\<rparr>" "''missing''"
      "Some \<lparr>ks_Name = ''ks'', ks_Tables = None\<rparr>" None]
    lookups_nil_safe[of "Some users_schema" "''missing''" "Some users_keyspace" "Some users_table"]
  by (simp add: has_key_def map_keys_def users_schema_def users_keyspace_def users_table_def)

section \<open>Properties of the tokenizer\<close>

text \<open>
  What \<^const>\<open>classifyANTLRToken\<close> does with a token that is followed by a parenthesis
  depends on the lexical type of the token. For a type that is none of those settled
  earlier, a keyword type in particular, the token is a function.
\<close>

lemma dropWhile_snoc: "\<not> P c \<Longrightarrow> dropWhile P (xs @ [c]) = dropWhile P xs @ [c]"
  by (induction xs) auto

lemma TrimSpace_first:
  assumes "dropWhile is_space rest = c # r"
  shows "TrimSpace rest = c # rev (dropWhile is_space (rev r))"
proof -
  have "\<not> is_space c" using assms dropWhile_eq_Cons_conv[of is_space rest c r] by simp
  then show ?thesis using assms by (simp add: TrimSpace_def dropWhile_snoc)
qed

lemma followed_by_paren_slice:
  assumes "followed_by_paren tok input"
  shows "\<exists>rest r. slice_from input (tk_Stop tok + 1) = Inr rest \<and> TrimSpace rest = CHR ''('' # r"
proof -
  let ?n = "length (tk_Text tok)"
  let ?s = "nat (tk_Start tok)"
  have t: "tk_Text tok \<noteq> []" "0 \<le> tk_Start tok"
    "tk_Stop tok + 1 = tk_Start tok + int ?n"
    "take ?n (drop ?s input) = tk_Text tok"
    using assms by (simp_all add: followed_by_paren_def token_at_def)
  have p: "take 1 (dropWhile is_space (drop (?s + ?n) input)) = ''(''"
    using assms by (simp add: followed_by_paren_def)
  have "length (take ?n (drop ?s input)) = ?n" using t(4) by simp
  then have le: "?s + ?n \<le> length input" using t(1) by (cases "tk_Text tok") auto
  have n: "nat (tk_Stop tok + 1) = ?s + ?n" using t(2,3) by simp
  have s: "slice_from input (tk_Stop tok + 1) = Inr (drop (?s + ?n) input)"
    using le t(2,3) n by (simp add: slice_from_def)
  obtain r where "dropWhile is_space (drop (?s + ?n) input) = CHR ''('' # r"
    using p by (cases "dropWhile is_space (drop (?s + ?n) input)") auto
  from TrimSpace_first[OF this] s show ?thesis by blast
qed

lemma keyword_call_is_function:
  assumes "tk_Channel tok \<noteq> TokenHiddenChannel"
    and "tk_TokenType tok \<notin> set (early_types lx)"
    and "is_ascii input" "followed_by_paren tok input"
  shows "classifyANTLRToken lx hv tok input partitionKeys clusteringKeys columns = Inr TokenFunction"
proof -
  from followed_by_paren_slice[OF assms(4)] obtain rest r where
    s: "slice_from input (tk_Stop tok + 1) = Inr rest" and r: "TrimSpace rest = CHR ''('' # r"
    by blast
  show ?thesis
    using assms(1,2) by (simp add: classifyANTLRToken_def Let_def early_types_def then_do_def s r)
qed

text \<open>
  A plain identifier never is: the test on \<^verbatim>\<open>OBJECT_NAME\<close> comes before the look at the
  text after the token, and returns.
\<close>

lemma object_name_not_function:
  assumes "tk_TokenType tok = OBJECT_NAME lx"
  shows "classifyANTLRToken lx hv tok input partitionKeys clusteringKeys columns \<noteq> Inr TokenFunction"
  using assms by (simp add: classifyANTLRToken_def Let_def semantic_or_def)

lemma object_name_identifier:
  assumes "tk_TokenType tok = OBJECT_NAME lx" "tk_Channel tok \<noteq> TokenHiddenChannel"
    and "OBJECT_NAME lx \<notin> set (butlast (early_types lx))"
  shows "classifyANTLRToken lx hv tok input None None None = Inr TokenIdentifier"
  using assms by (simp add: classifyANTLRToken_def Let_def semantic_or_def in_set_def early_types_def)

text \<open>
  Claim C8. The claim asks that a token followed by an opening parenthesis be a function
  whether it is a keyword or a plain identifier. The code does not do that for the plain
  identifier: the token \<^verbatim>\<open>now\<close> of \<^verbatim>\<open>SELECT now() FROM t\<close> is on the default channel, is
  followed by a parenthesis and is of type \<^verbatim>\<open>OBJECT_NAME\<close>, and it is not classified as a
  function, whatever the numbering of the token types, the hover tables and the semantic
  context; without a semantic context it is an identifier.
\<close>

theorem identifier_call_not_function:
  "is_ascii ''SELECT now() FROM t'' \<and>
   followed_by_paren (now_token (OBJECT_NAME lx)) ''SELECT now() FROM t'' \<and>
   tk_Channel (now_token (OBJECT_NAME lx)) = TokenDefaultChannel \<and>
   classifyANTLRToken lx hv (now_token (OBJECT_NAME lx)) ''SELECT now() FROM t''
     partitionKeys clusteringKeys columns \<noteq> Inr TokenFunction \<and>
   classifyANTLRToken sample_lexer hv (now_token (OBJECT_NAME sample_lexer)) ''SELECT now() FROM t''
     None None None = Inr TokenIdentifier"
proof -
  have a: "is_ascii ''SELECT now() FROM t''" by (simp add: is_ascii_def)
  have f: "followed_by_paren (now_token (OBJECT_NAME lx)) ''SELECT now() FROM t''"
    by (simp add: followed_by_paren_def token_at_def now_token_def is_space_def)
  have c: "tk_Channel (now_token (OBJECT_NAME lx)) = TokenDefaultChannel"
    by (simp add: now_token_def TokenDefaultChannel_def)
  have n: "classifyANTLRToken lx hv (now_token (OBJECT_NAME lx)) ''SELECT now() FROM t''
     partitionKeys clusteringKeys columns \<noteq> Inr TokenFunction"
    by (rule object_name_not_function) (simp add: now_token_def)
  have i: "classifyANTLRToken sample_lexer hv (now_token (OBJECT_NAME sample_lexer))
     ''SELECT now() FROM t'' None None None = Inr TokenIdentifier"
    by (rule object_name_identifier)
       (simp_all add: now_token_def sample_lexer_def early_types_def TokenHiddenChannel_def)
  show ?thesis using a f c n i by (intro conjI)
qed

end
